theory Spec2Isabelle
  imports Complex_Main
begin

section \<open>Common vocabulary: exceptions, remote-call outcomes, observable events\<close>

text \<open>
  The services of the middleware are asynchronous JavaScript functions that call
  collaborators living outside the verified files (the Bunjang and Shopify clients, the
  Mongo model \<open>SyncedProduct\<close>, the order mapper, the crypto module). A call to such a
  collaborator either resolves with a value or rejects with an exception; the reply of
  every call is a parameter of the model (an \<open>environment\<close> record), so that
  each theorem quantifies over every behaviour of the collaborators.
\<close>

datatype exn =
    ValidationError string
  | RangeError
  | ServiceError string "string option"
    \<comment> \<open>message; \<open>originalError.response.data.errorCode\<close> when the rejection carries one\<close>

datatype 'a outcome = Resolves 'a | Rejects exn

record metafield =
  mf_namespace :: string
  mf_key :: string
  mf_value :: string
  mf_type :: string

record order_payload =
  product_id :: string
  product_price :: int
  deliveryPrice :: int

text \<open>
  What the functions do to the outside world is recorded as a list of events, in the order
  in which the code performs them.
\<close>

datatype event =
    Skipped "string option"
    \<comment> \<open>\<open>logger.debug\<close>: the item's SKU is not a Bunjang-linked one\<close>
  | Found string string
    \<comment> \<open>\<open>logger.info\<close>: linked item, its SKU and the Bunjang pid\<close>
  | GetBunjangProductDetails string
  | CreateBunjangOrderV2 order_payload "int option"
    \<comment> \<open>payload submitted; \<open>Some i\<close> when the call resolved with the truthy order id \<open>i\<close>\<close>
  | GetBunjangPointBalance
  | UpdateOrder string "string list" "metafield list" bool
    \<comment> \<open>order gid, tags, metafields; \<open>True\<close> when the write resolved\<close>
  | GetBunjangOrders nat bool
    \<comment> \<open>page requested; \<open>True\<close> when the fetch resolved\<close>
  | FindOrderByBunjangId int
  | SyncFailed int
    \<comment> \<open>\<open>logger.error\<close>: syncing the marketplace order with this id failed\<close>
  | UpdateInventoryLevel string int
    \<comment> \<open>inventory item id and the quantity pushed to Shopify\<close>
  | UpdateOne string int
    \<comment> \<open>the cached \<open>bunjangQuantity\<close> written to the link of this pid\<close>

section \<open>Inventory service (src/services/inventoryService.js)\<close>

datatype sync_status = PENDING | SYNCED | ERROR

record synced_product =
  bunjangPid :: "string option"
  shopifyGid :: "string option"
  bunjangProductName :: string
  bunjangQuantity :: "int option"
  syncStatus :: sync_status

record variant =
  inventoryItemId :: string
  inventoryQuantity :: "int option"

text \<open>
  The replies to the calls of one run of \<open>syncBunjangInventoryToShopify\<close>:
  \<open>SyncedProduct.findOne\<close>, the GraphQL product query (\<open>None\<close> is
  \<open>data.product = null\<close>, otherwise the variant edges), \<open>updateInventoryLevel\<close> and
  \<open>SyncedProduct.updateOne\<close>.
\<close>

record sync_env =
  findOne :: "synced_product option outcome"
  shopifyGraphqlRequest :: "variant list option outcome"
  updateInventoryLevel :: "unit outcome"
  updateOne :: "unit outcome"

text \<open>JavaScript truthiness of an optional string: absent and empty are both falsy.\<close>

definition truthy :: "string option \<Rightarrow> bool" where
  "truthy s = (case s of None \<Rightarrow> False | Some t \<Rightarrow> t \<noteq> [])"

text \<open>\<open>x || 0\<close> on an optional number.\<close>

definition or_zero :: "int option \<Rightarrow> int" where
  "or_zero x = (case x of None \<Rightarrow> 0 | Some n \<Rightarrow> n)"

definition syncBunjangInventoryToShopify ::
  "sync_env \<Rightarrow> string \<Rightarrow> int \<Rightarrow> (exn + bool) \<times> event list" where
  "syncBunjangInventoryToShopify env pid bunjangQuantity' =
     (case findOne env of
        Rejects e \<Rightarrow> (Inl e, [])
      | Resolves None \<Rightarrow> (Inr False, [])
      | Resolves (Some syncedProduct) \<Rightarrow>
          if \<not> truthy (shopifyGid syncedProduct) then (Inr False, [])
          else
            (case shopifyGraphqlRequest env of
               Rejects e \<Rightarrow> (Inl e, [])
             | Resolves None \<Rightarrow> (Inr False, [])
             | Resolves (Some []) \<Rightarrow> (Inr False, [])
             | Resolves (Some (v # _)) \<Rightarrow>
                 let currentQuantity = or_zero (inventoryQuantity v) in
                 if currentQuantity \<noteq> bunjangQuantity' then
                   (case updateInventoryLevel env of
                      Rejects e \<Rightarrow> (Inl e, [UpdateInventoryLevel (inventoryItemId v) bunjangQuantity'])
                    | Resolves _ \<Rightarrow>
                        (case updateOne env of
                           Rejects e \<Rightarrow>
                             (Inl e, [UpdateInventoryLevel (inventoryItemId v) bunjangQuantity',
                                      UpdateOne pid bunjangQuantity'])
                         | Resolves _ \<Rightarrow>
                             (Inr True, [UpdateInventoryLevel (inventoryItemId v) bunjangQuantity',
                                         UpdateOne pid bunjangQuantity'])))
                 else (Inr True, [])))"

record product_details =
  price :: int
  shippingFee :: "int option"
  quantity :: "int option"

text \<open>
  The replies to the calls of one run of \<open>checkAndSyncBunjangInventory\<close>: the live
  product-detail fetch (\<open>None\<close> when it resolves with nothing) and the replies for the
  nested \<open>syncBunjangInventoryToShopify\<close>.
\<close>

record check_env =
  getBunjangProductDetails :: "product_details option outcome"
  sync :: sync_env

definition checkAndSyncBunjangInventory ::
  "check_env \<Rightarrow> string \<Rightarrow> (exn + int) \<times> event list" where
  "checkAndSyncBunjangInventory env pid =
     (case getBunjangProductDetails env of
        Rejects e \<Rightarrow> (Inl e, [GetBunjangProductDetails pid])
      | Resolves None \<Rightarrow> (Inr (- 1), [GetBunjangProductDetails pid])
      | Resolves (Some productDetails) \<Rightarrow>
          let currentQuantity = or_zero (quantity productDetails) in
          (case syncBunjangInventoryToShopify (sync env) pid currentQuantity of
             (Inl e, evs) \<Rightarrow> (Inl e, GetBunjangProductDetails pid # evs)
           | (Inr _, evs) \<Rightarrow> (Inr currentQuantity, GetBunjangProductDetails pid # evs)))"

record low_stock_entry =
  ls_bunjangPid :: "string option"
  ls_productName :: string
  ls_currentStock :: int

record sync_results =
  totalProducts :: nat
  synced :: nat
  failed :: nat
  skipped :: nat
  lowStock :: "low_stock_entry list"

text \<open>
  \<open>SyncedProduct.find({syncStatus: 'SYNCED', bunjangPid: {$exists: true}}).limit(1000)\<close>
  over the contents of the collection.
\<close>

definition find_synced :: "synced_product list \<Rightarrow> synced_product list" where
  "find_synced db = take 1000 (filter (\<lambda>p. syncStatus p = SYNCED \<and> bunjangPid p \<noteq> None) db)"

definition pid_of :: "synced_product \<Rightarrow> string" where
  "pid_of p = (case bunjangPid p of None \<Rightarrow> [] | Some s \<Rightarrow> s)"

text \<open>
  One iteration of the loop of \<open>performFullInventorySync\<close>: the inner \<open>try\<close> with its
  \<open>catch\<close>. (The pause after every second success only waits.)
\<close>

definition sync_product ::
  "synced_product \<Rightarrow> check_env \<Rightarrow> sync_results \<Rightarrow> sync_results \<times> event list" where
  "sync_product product env results =
     (case checkAndSyncBunjangInventory env (pid_of product) of
        (Inl e, evs) \<Rightarrow> (results\<lparr>failed := failed results + 1\<rparr>, evs)
      | (Inr currentQuantity, evs) \<Rightarrow>
          if currentQuantity \<ge> 0 then
            (if currentQuantity \<le> 5 then
               results\<lparr>synced := synced results + 1,
                       lowStock := lowStock results @
                         [\<lparr>ls_bunjangPid = bunjangPid product,
                           ls_productName = bunjangProductName product,
                           ls_currentStock = currentQuantity\<rparr>]\<rparr>
             else results\<lparr>synced := synced results + 1\<rparr>, evs)
          else (results\<lparr>skipped := skipped results + 1\<rparr>, evs))"

fun sync_products ::
  "(synced_product \<times> check_env) list \<Rightarrow> sync_results \<Rightarrow> event list
     \<Rightarrow> sync_results \<times> event list" where
  "sync_products [] results evs = (results, evs)"
| "sync_products ((product, env) # rest) results evs =
     (let (results', new) = sync_product product env results
      in sync_products rest results' (evs @ new))"

definition performFullInventorySync ::
  "synced_product list outcome \<Rightarrow> (nat \<Rightarrow> check_env) \<Rightarrow> (exn + sync_results) \<times> event list" where
  "performFullInventorySync collection envs =
     (case collection of
        Rejects e \<Rightarrow> (Inl e, [])
      | Resolves db \<Rightarrow>
          let syncedProducts = find_synced db;
              (results, evs) =
                sync_products (zip syncedProducts (map envs [0..<length syncedProducts]))
                  \<lparr>totalProducts = length syncedProducts, synced = 0, failed = 0,
                   skipped = 0, lowStock = []\<rparr> []
          in (Inr results, evs))"

section \<open>Webhook routes (src/routes/webhook.routes.js)\<close>

record line_item =
  sku :: "string option"
  item_product_id :: int
  item_quantity :: int

record webhook_order =
  order_id :: "int option"
  admin_graphql_api_id :: "string option"
  line_items :: "line_item list option"
  cancelled_at :: "string option"

datatype raw_body = Str string | Buf string

record request =
  hmac_header :: "string option"
  rawBody :: "raw_body option"
  body :: "webhook_order option"

text \<open>
  The crypto module and the JSON parser are taken as parameters: the base64 HMAC-SHA256 of
  a payload under a secret, base64 decoding (\<open>Buffer.from(s, 'base64')\<close>) and
  \<open>JSON.parse\<close> (\<open>None\<close> when it throws, \<open>Some None\<close> when the text is \<open>null\<close>).
\<close>

record crypto =
  hmac_sha256_base64 :: "string \<Rightarrow> string \<Rightarrow> string"
  base64_decode :: "string \<Rightarrow> string"
  json_parse :: "string \<Rightarrow> webhook_order option option"

datatype reply_body = Text string | Json string string

record response =
  status :: nat
  reply :: reply_body

datatype verdict = Rejected nat string | Next "webhook_order option"

text \<open>\<open>!req.rawBody\<close>: an absent body and the empty string are falsy, a Buffer never is.\<close>

fun raw_missing :: "raw_body option \<Rightarrow> bool" where
  "raw_missing None = True"
| "raw_missing (Some (Str s)) = (s = [])"
| "raw_missing (Some (Buf b)) = False"

fun rawBodyBuffer :: "raw_body option \<Rightarrow> string" where
  "rawBodyBuffer None = []"
| "rawBodyBuffer (Some (Str s)) = s"
| "rawBodyBuffer (Some (Buf b)) = b"

definition timingSafeEqual :: "string \<Rightarrow> string \<Rightarrow> bool" where
  "timingSafeEqual a b = (a = b)"

definition verifyWebhook :: "crypto \<Rightarrow> string option \<Rightarrow> request \<Rightarrow> verdict" where
  "verifyWebhook c webhookSecret req =
     (case hmac_header req of
        None \<Rightarrow> Rejected 401 ''Unauthorized - Missing HMAC''
      | Some hmac \<Rightarrow>
          if hmac = [] then Rejected 401 ''Unauthorized - Missing HMAC''
          else if raw_missing (rawBody req) then Rejected 401 ''Unauthorized - Missing body''
          else
            (case webhookSecret of
               None \<Rightarrow> Rejected 500 ''Server configuration error''
             | Some secret \<Rightarrow>
                 if secret = [] then Rejected 500 ''Server configuration error''
                 else
                   let calculatedHmac = hmac_sha256_base64 c secret (rawBodyBuffer (rawBody req));
                       hmacBuffer = base64_decode c hmac;
                       calculatedBuffer = base64_decode c calculatedHmac
                   in if length hmacBuffer \<noteq> length calculatedBuffer
                         \<or> \<not> timingSafeEqual hmacBuffer calculatedBuffer
                      then Rejected 401 ''Unauthorized - Invalid HMAC''
                      else
                        (case body req of
                           Some parsed \<Rightarrow> Next (Some parsed)
                         | None \<Rightarrow>
                             (case json_parse c (rawBodyBuffer (rawBody req)) of
                                None \<Rightarrow> Rejected 400 ''Bad Request - Invalid JSON''
                              | Some parsed \<Rightarrow> Next parsed))))"

text \<open>
  The replies to the calls made for one line item of a webhook: the route's own
  \<open>SyncedProduct.findOne\<close>, the calls of \<open>checkAndSyncBunjangInventory\<close> and the calls of
  the route's \<open>syncBunjangInventoryToShopify\<close>.
\<close>

record hook_env =
  lookup :: "synced_product option outcome"
  check :: check_env
  push :: sync_env

text \<open>\<open>syncedProduct && syncedProduct.bunjangPid\<close>\<close>

definition linked_pid :: "synced_product option \<Rightarrow> string option" where
  "linked_pid lk =
     (case lk of
        None \<Rightarrow> None
      | Some p \<Rightarrow> if truthy (bunjangPid p) then bunjangPid p else None)"

text \<open>
  The body of the per-item \<open>try\<close> of the order-creation route; its \<open>catch\<close> only logs,
  so an exception ends the item and nothing else.
\<close>

definition create_item :: "hook_env \<Rightarrow> line_item \<Rightarrow> event list" where
  "create_item env lineItem =
     (case lookup env of
        Rejects e \<Rightarrow> []
      | Resolves lk \<Rightarrow>
          (case linked_pid lk of
             None \<Rightarrow> []
           | Some pid \<Rightarrow>
               (case checkAndSyncBunjangInventory (check env) pid of
                  (Inl e, evs) \<Rightarrow> evs
                | (Inr currentStock, evs) \<Rightarrow>
                    if currentStock \<ge> 0 then
                      let newStock = max 0 (currentStock - item_quantity lineItem)
                      in evs @ snd (syncBunjangInventoryToShopify (push env) pid newStock)
                    else evs)))"

text \<open>The same for the order-update route, entered only for a cancelled order.\<close>

definition restore_item :: "hook_env \<Rightarrow> line_item \<Rightarrow> event list" where
  "restore_item env lineItem =
     (case lookup env of
        Rejects e \<Rightarrow> []
      | Resolves lk \<Rightarrow>
          (case linked_pid lk of
             None \<Rightarrow> []
           | Some pid \<Rightarrow>
               (case checkAndSyncBunjangInventory (check env) pid of
                  (Inl e, evs) \<Rightarrow> evs
                | (Inr currentStock, evs) \<Rightarrow>
                    let restoredStock = currentStock + item_quantity lineItem
                    in evs @ snd (syncBunjangInventoryToShopify (push env) pid restoredStock))))"

text \<open>\<open>order.line_items || []\<close>\<close>

definition items_of :: "webhook_order \<Rightarrow> line_item list" where
  "items_of order = (case line_items order of None \<Rightarrow> [] | Some xs \<Rightarrow> xs)"

fun each_item ::
  "(hook_env \<Rightarrow> line_item \<Rightarrow> event list) \<Rightarrow> (nat \<Rightarrow> hook_env) \<Rightarrow> nat \<Rightarrow> line_item list
     \<Rightarrow> event list" where
  "each_item f envs i [] = []"
| "each_item f envs i (lineItem # rest) = f (envs i) lineItem @ each_item f envs (Suc i) rest"

text \<open>
  The handlers behind \<open>verifyWebhook\<close>. Reading a property of a \<open>null\<close> body throws a
  \<open>TypeError\<close>, which the outer \<open>catch\<close> answers with 500.
\<close>

definition orders_create :: "(nat \<Rightarrow> hook_env) \<Rightarrow> webhook_order option \<Rightarrow> response \<times> event list" where
  "orders_create envs parsed =
     (case parsed of
        None \<Rightarrow> (\<lparr>status = 500, reply = Json ''error'' ''Internal server error''\<rparr>, [])
      | Some order \<Rightarrow>
          (\<lparr>status = 200, reply = Json ''status'' ''success''\<rparr>,
           each_item create_item envs 0 (items_of order)))"

definition orders_updated :: "(nat \<Rightarrow> hook_env) \<Rightarrow> webhook_order option \<Rightarrow> response \<times> event list" where
  "orders_updated envs parsed =
     (case parsed of
        None \<Rightarrow> (\<lparr>status = 500, reply = Json ''error'' ''Internal server error''\<rparr>, [])
      | Some order \<Rightarrow>
          (\<lparr>status = 200, reply = Json ''status'' ''success''\<rparr>,
           if truthy (cancelled_at order) then each_item restore_item envs 0 (items_of order)
           else []))"

text \<open>A route is the verification middleware followed by its handler.\<close>

definition route ::
  "(webhook_order option \<Rightarrow> response \<times> event list) \<Rightarrow> crypto \<Rightarrow> string option \<Rightarrow> request
     \<Rightarrow> response \<times> event list" where
  "route handler c webhookSecret req =
     (case verifyWebhook c webhookSecret req of
        Rejected code msg \<Rightarrow> (\<lparr>status = code, reply = Text msg\<rparr>, [])
      | Next parsed \<Rightarrow> handler parsed)"

definition post_orders_create ::
  "(nat \<Rightarrow> hook_env) \<Rightarrow> crypto \<Rightarrow> string option \<Rightarrow> request \<Rightarrow> response \<times> event list" where
  "post_orders_create envs = route (orders_create envs)"

definition post_orders_updated ::
  "(nat \<Rightarrow> hook_env) \<Rightarrow> crypto \<Rightarrow> string option \<Rightarrow> request \<Rightarrow> response \<times> event list" where
  "post_orders_updated envs = route (orders_updated envs)"

section \<open>Order service (src/services/orderService.js)\<close>

record config =
  orderIdentifierPrefix :: string
  lowBalanceThreshold :: int

text \<open>\<open>String(n)\<close> and template interpolation of an integer: its decimal digits.\<close>

fun digits :: "nat \<Rightarrow> string" where
  "digits n =
     (if n < 10 then [''0123456789'' ! n]
      else digits (n div 10) @ [''0123456789'' ! (n mod 10)])"

declare digits.simps [simp del]

definition js_String :: "int \<Rightarrow> string" where
  "js_String i = (if i < 0 then CHR ''-'' # digits (nat (- i)) else digits (nat i))"

text \<open>\<open>ids.join(', ')\<close>\<close>

fun join :: "string list \<Rightarrow> string" where
  "join [] = []"
| "join [x] = x"
| "join (x # y # rest) = x @ '', '' @ join (y # rest)"

text \<open>
  The places of \<open>processShopifyOrderForBunjang\<close> that write to the Shopify order with
  \<open>shopifyService.updateOrder\<close>, in source order: the not-found tag, the map-failure tag,
  the tags and metafields of a placed order, the low-balance tag, the missing-id tag, the
  tag of the inner \<open>catch\<close> and the tag of the outer \<open>catch\<close>.
\<close>

datatype site =
  NotFoundTag | MapFailTag | PlacedTag | LowBalanceTag | NoOrderIdTag | CreateFailTag | ExceptionTag

record create_response =
  response_id :: "int option"

text \<open>
  The replies to the calls made for one line item: the live product-detail fetch, the
  order mapper, the order-creation call, the point-balance query (\<open>Some b\<close> is a balance
  object with \<open>balance = b\<close>) and, for each place, the write to the Shopify order.
\<close>

record item_env =
  productDetails :: "product_details option outcome"
  mapShopifyItemToBunjangOrderPayload :: "order_payload option outcome"
  createBunjangOrderV2 :: "create_response option outcome"
  getBunjangPointBalance :: "int option outcome"
  updateOrder :: "site \<Rightarrow> unit outcome"

text \<open>
  The two local variables of the loop, and the events so far. They are updated in place:
  an exception thrown later does not undo them.
\<close>

record loop_state =
  createdBunjangOrderIds :: "string list"
  bunjangOrderSuccessfullyCreatedOverall :: bool
  events :: "event list"

definition emit :: "event \<Rightarrow> loop_state \<Rightarrow> loop_state" where
  "emit ev s = s\<lparr>events := events s @ [ev]\<rparr>"

text \<open>\<open>await shopifyService.updateOrder({id, tags, metafields})\<close>: \<open>Some e\<close> when it throws.\<close>

definition tag_order ::
  "item_env \<Rightarrow> site \<Rightarrow> string \<Rightarrow> string list \<Rightarrow> metafield list \<Rightarrow> loop_state
     \<Rightarrow> exn option \<times> loop_state" where
  "tag_order env place gid tags mfs s =
     (case updateOrder env place of
        Resolves _ \<Rightarrow> (None, emit (UpdateOrder gid tags mfs True) s)
      | Rejects e \<Rightarrow> (Some e, emit (UpdateOrder gid tags mfs False) s))"

text \<open>\<open>bunjangApiResponse && bunjangApiResponse.id\<close>: the id when it is truthy.\<close>

definition truthy_id :: "create_response option \<Rightarrow> int option" where
  "truthy_id resp =
     (case resp of
        None \<Rightarrow> None
      | Some r \<Rightarrow> (case response_id r of None \<Rightarrow> None | Some i \<Rightarrow> if i = 0 then None else Some i))"

text \<open>\<open>apiError.originalError?.response?.data?.errorCode\<close> when it is truthy.\<close>

fun response_code :: "exn \<Rightarrow> string option" where
  "response_code (ServiceError msg code) = (if truthy code then code else None)"
| "response_code _ = None"

definition errorTag :: "string \<Rightarrow> exn \<Rightarrow> string" where
  "errorTag pid apiError =
     (case response_code apiError of
        None \<Rightarrow> ''PID-'' @ pid @ ''-CreateFail''
      | Some errorCode \<Rightarrow>
          if errorCode = ''PRODUCT_NOT_FOUND'' \<or> errorCode = ''PRODUCT_SOLD_OUT''
             \<or> errorCode = ''PRODUCT_ON_HOLD''
          then ''PID-'' @ pid @ ''-NotAvailable''
          else if errorCode = ''INVALID_PRODUCT_PRICE'' then ''PID-'' @ pid @ ''-PriceChanged''
          else if errorCode = ''INVALID_PRODUCT_QTY'' then ''PID-'' @ pid @ ''-OutOfStock''
          else if errorCode = ''POINT_SHORTAGE'' then ''PID-'' @ pid @ ''-InsufficientPoints''
          else if errorCode = ''INVALID_SELF_PURCHASE'' then ''PID-'' @ pid @ ''-SelfPurchase''
          else if errorCode = ''BLOCKED_BY_OPPONENT'' \<or> errorCode = ''BLOCKED_BY_SELF''
          then ''PID-'' @ pid @ ''-Blocked''
          else ''PID-'' @ pid @ ''-'' @ errorCode)"

definition bunjang_field :: "string \<Rightarrow> string \<Rightarrow> string \<Rightarrow> metafield" where
  "bunjang_field k v t = \<lparr>mf_namespace = ''bunjang'', mf_key = k, mf_value = v, mf_type = t\<rparr>"

definition metafieldsInput :: "int \<Rightarrow> string \<Rightarrow> order_payload \<Rightarrow> int \<Rightarrow> metafield list" where
  "metafieldsInput bunjangOrderId pid payload actualBunjangShippingFeeKrw =
     [bunjang_field ''order_id'' (js_String bunjangOrderId) ''single_line_text_field'',
      bunjang_field ''ordered_pid'' pid ''single_line_text_field'',
      bunjang_field ''ordered_item_price_krw'' (js_String (product_price payload)) ''number_integer'',
      bunjang_field ''api_sent_shipping_fee_krw'' (js_String (deliveryPrice payload)) ''number_integer'',
      bunjang_field ''actual_bunjang_shipping_fee_krw'' (js_String actualBunjangShippingFeeKrw)
        ''number_integer'']"

text \<open>
  Step 6, the balance check after a placed order. It sits in a \<open>try\<close> of its own whose
  \<open>catch\<close> only logs, so it never throws. \<open>config.bunjang.lowBalanceThreshold || 1000000\<close>.
\<close>

definition check_balance :: "config \<Rightarrow> item_env \<Rightarrow> string \<Rightarrow> loop_state \<Rightarrow> loop_state" where
  "check_balance cfg env gid s =
     (let s1 = emit GetBunjangPointBalance s;
          LOW_BALANCE_THRESHOLD =
            (if lowBalanceThreshold cfg = 0 then 1000000 else lowBalanceThreshold cfg)
      in case getBunjangPointBalance env of
           Rejects balanceError \<Rightarrow> s1
         | Resolves None \<Rightarrow> s1
         | Resolves (Some balance) \<Rightarrow>
             if balance < LOW_BALANCE_THRESHOLD
             then snd (tag_order env LowBalanceTag gid [''LowPointBalance-'' @ js_String balance] [] s1)
             else s1)"

text \<open>
  \<open>try { ... } catch (e) { ... }\<close> and sequencing, on a computation that has either
  thrown (\<open>Some e\<close>) or not, and has left a state behind in both cases.
\<close>

definition catch ::
  "exn option \<times> loop_state \<Rightarrow> (exn \<Rightarrow> loop_state \<Rightarrow> exn option \<times> loop_state)
     \<Rightarrow> exn option \<times> loop_state" where
  "catch attempt handler =
     (case attempt of (None, s) \<Rightarrow> (None, s) | (Some e, s) \<Rightarrow> handler e s)"

definition and_then ::
  "exn option \<times> loop_state \<Rightarrow> (loop_state \<Rightarrow> exn option \<times> loop_state)
     \<Rightarrow> exn option \<times> loop_state" where
  "and_then first rest =
     (case first of (None, s) \<Rightarrow> rest s | (Some e, s) \<Rightarrow> (Some e, s))"

text \<open>
  \<open>createdBunjangOrderIds.push(String(bunjangOrderId));
  bunjangOrderSuccessfullyCreatedOverall = true\<close>
\<close>

definition record_created :: "int \<Rightarrow> loop_state \<Rightarrow> loop_state" where
  "record_created bunjangOrderId s =
     s\<lparr>createdBunjangOrderIds := createdBunjangOrderIds s @ [js_String bunjangOrderId],
       bunjangOrderSuccessfullyCreatedOverall := True\<rparr>"

text \<open>
  Steps 4 and 5: the inner \<open>try\<close> (the order-creation call and what follows it) with its
  \<open>catch\<close>, which tags the order by the error code and may itself throw.
\<close>

definition create_order ::
  "config \<Rightarrow> item_env \<Rightarrow> string \<Rightarrow> string \<Rightarrow> string \<Rightarrow> order_payload \<Rightarrow> int \<Rightarrow> loop_state
     \<Rightarrow> exn option \<times> loop_state" where
  "create_order cfg env ident gid pid payload actualFee s =
     catch
       (case createBunjangOrderV2 env of
          Rejects apiError \<Rightarrow> (Some apiError, emit (CreateBunjangOrderV2 payload None) s)
        | Resolves bunjangApiResponse \<Rightarrow>
            (case truthy_id bunjangApiResponse of
               Some bunjangOrderId \<Rightarrow>
                 and_then
                   (tag_order env PlacedTag gid
                      [''BunjangOrderPlaced'', ident, ''BunjangOrderID-'' @ js_String bunjangOrderId]
                      (metafieldsInput bunjangOrderId pid payload actualFee)
                      (record_created bunjangOrderId
                         (emit (CreateBunjangOrderV2 payload (Some bunjangOrderId)) s)))
                   (\<lambda>s'. (None, check_balance cfg env gid s'))
             | None \<Rightarrow>
                 tag_order env NoOrderIdTag gid
                   [ident @ ''_Error'', ''PID-'' @ pid @ ''-NoOrderId''] []
                   (emit (CreateBunjangOrderV2 payload None) s)))
       (\<lambda>apiError s'.
          tag_order env CreateFailTag gid [ident @ ''_Error'', errorTag pid apiError] [] s')"

text \<open>
  Steps 1 to 3 and the outer \<open>try\<close> with its \<open>catch\<close>: one linked line item. The write
  in the outer \<open>catch\<close> is not inside any \<open>try\<close>: \<open>Some e\<close> is an exception that leaves
  the loop.
\<close>

definition process_item ::
  "config \<Rightarrow> string \<Rightarrow> string \<Rightarrow> string \<Rightarrow> item_env \<Rightarrow> loop_state \<Rightarrow> exn option \<times> loop_state" where
  "process_item cfg ident gid pid env s =
     catch
       (case productDetails env of
          Rejects e \<Rightarrow> (Some e, emit (GetBunjangProductDetails pid) s)
        | Resolves None \<Rightarrow>
            tag_order env NotFoundTag gid [ident @ ''_Error'', ''PID-'' @ pid @ ''-NotFound''] []
              (emit (GetBunjangProductDetails pid) s)
        | Resolves (Some bunjangProductDetails) \<Rightarrow>
            (case mapShopifyItemToBunjangOrderPayload env of
               Rejects e \<Rightarrow> (Some e, emit (GetBunjangProductDetails pid) s)
             | Resolves None \<Rightarrow>
                 tag_order env MapFailTag gid [ident @ ''_Error'', ''PID-'' @ pid @ ''-MapFail''] []
                   (emit (GetBunjangProductDetails pid) s)
             | Resolves (Some bunjangOrderPayload) \<Rightarrow>
                 create_order cfg env ident gid pid
                   (bunjangOrderPayload\<lparr>deliveryPrice := 0\<rparr>)
                   (or_zero (shippingFee bunjangProductDetails))
                   (emit (GetBunjangProductDetails pid) s)))
       (\<lambda>error s'.
          tag_order env ExceptionTag gid [ident @ ''_Error'', ''PID-'' @ pid @ ''-Exception''] [] s')"

text \<open>\<open>item.sku && item.sku.startsWith('BJ-')\<close>\<close>

definition linked :: "line_item \<Rightarrow> bool" where
  "linked item = (case sku item of None \<Rightarrow> False | Some s \<Rightarrow> take 3 s = ''BJ-'')"

text \<open>\<open>item.sku.substring(3)\<close>\<close>

definition sku_of :: "line_item \<Rightarrow> string" where
  "sku_of item = (case sku item of None \<Rightarrow> [] | Some s \<Rightarrow> s)"

definition pid_of_sku :: "line_item \<Rightarrow> string" where
  "pid_of_sku item = drop 3 (sku_of item)"

text \<open>The \<open>for\<close> loop over the line items; item \<open>i\<close> is answered by \<open>envs i\<close>.\<close>

fun process_items ::
  "config \<Rightarrow> string \<Rightarrow> string \<Rightarrow> (nat \<Rightarrow> item_env) \<Rightarrow> nat \<Rightarrow> line_item list \<Rightarrow> loop_state
     \<Rightarrow> exn option \<times> loop_state" where
  "process_items cfg ident gid envs i [] s = (None, s)"
| "process_items cfg ident gid envs i (item # rest) s =
     (if \<not> linked item
      then process_items cfg ident gid envs (Suc i) rest (emit (Skipped (sku item)) s)
      else
        (case process_item cfg ident gid (pid_of_sku item) (envs i)
                (emit (Found (sku_of item) (pid_of_sku item)) s) of
           (Some e, s') \<Rightarrow> (Some e, s')
         | (None, s') \<Rightarrow> process_items cfg ident gid envs (Suc i) rest s'))"

datatype message = CreatedMessage string | NotCreatedMessage

record order_result =
  success :: bool
  bunjangOrderIds :: "string list option"
  message :: message

definition processShopifyOrderForBunjang ::
  "config \<Rightarrow> (nat \<Rightarrow> item_env) \<Rightarrow> webhook_order \<Rightarrow> (exn + order_result) \<times> event list" where
  "processShopifyOrderForBunjang cfg envs shopifyOrder =
     (case (order_id shopifyOrder, admin_graphql_api_id shopifyOrder, line_items shopifyOrder) of
        (Some shopifyOrderId, Some shopifyOrderGid, Some items) \<Rightarrow>
          if shopifyOrderId = 0 \<or> shopifyOrderGid = [] \<or> items = []
          then (Inl (ValidationError ''shopifyOrder''), [])
          else
            (let bunjangOrderIdentifier = orderIdentifierPrefix cfg @ js_String shopifyOrderId
             in case process_items cfg bunjangOrderIdentifier shopifyOrderGid envs 0 items
                       \<lparr>createdBunjangOrderIds = [],
                        bunjangOrderSuccessfullyCreatedOverall = False, events = []\<rparr> of
                  (Some e, s) \<Rightarrow> (Inl e, events s)
                | (None, s) \<Rightarrow>
                    if bunjangOrderSuccessfullyCreatedOverall s
                    then (Inr \<lparr>success = True,
                               bunjangOrderIds = Some (createdBunjangOrderIds s),
                               message = CreatedMessage (join (createdBunjangOrderIds s))\<rparr>,
                          events s)
                    else (Inr \<lparr>success = False, bunjangOrderIds = None,
                               message = NotCreatedMessage\<rparr>, events s))
      | _ \<Rightarrow> (Inl (ValidationError ''shopifyOrder''), []))"

subsection \<open>Status reconciliation\<close>

record order_item =
  item_status :: string
  purchaseConfirmedAt :: "string option"

record bunjang_order =
  bunjang_order_id :: int
  orderItems :: "order_item list"

text \<open>
  The replies to the calls of one run of \<open>updateShopifyOrderFromBunjangStatus\<close>: the
  search by tag (the gid of the first order found, \<open>None\<close> when there is none) and, for
  order item \<open>k\<close>, the write of its status branch and the write of the last-sync stamp.
\<close>

record status_env =
  findOrderByBunjangId :: "string option outcome"
  statusWrite :: "nat \<Rightarrow> unit outcome"
  stampWrite :: "nat \<Rightarrow> unit outcome"

definition write_order ::
  "unit outcome \<Rightarrow> string \<Rightarrow> string list \<Rightarrow> metafield list \<Rightarrow> exn option \<times> event list" where
  "write_order answer gid tags mfs =
     (case answer of
        Resolves _ \<Rightarrow> (None, [UpdateOrder gid tags mfs True])
      | Rejects e \<Rightarrow> (Some e, [UpdateOrder gid tags mfs False]))"

text \<open>The \<open>switch\<close> on the status of one order item; \<open>now\<close> is \<open>new Date().toISOString()\<close>.\<close>

definition status_branch ::
  "status_env \<Rightarrow> string \<Rightarrow> string \<Rightarrow> int \<Rightarrow> nat \<Rightarrow> order_item \<Rightarrow> exn option \<times> event list" where
  "status_branch env now gid bunjangOrderId k orderItem =
     (let st = item_status orderItem in
      if st = ''SHIP_READY'' \<or> st = ''IN_TRANSIT'' \<or> st = ''DELIVERY_COMPLETED'' then (None, [])
      else if st = ''PURCHASE_CONFIRM'' then
        write_order (statusWrite env k) gid []
          [bunjang_field ''purchase_confirmed'' ''true'' ''single_line_text_field'',
           bunjang_field ''purchase_confirmed_at''
             (case purchaseConfirmedAt orderItem of
                None \<Rightarrow> now
              | Some t \<Rightarrow> if t = [] then now else t)
             ''date_time'']
      else if st = ''CANCEL_REQUESTED_BEFORE_SHIPPING'' \<or> st = ''REFUNDED''
              \<or> st = ''RETURN_REQUESTED'' \<or> st = ''RETURNED'' then
        write_order (statusWrite env k) gid
          [''BunjangStatus-'' @ st,
           ''BunjangOrder-'' @ js_String bunjangOrderId @ ''-'' @ st] []
      else (None, []))"

fun update_items ::
  "status_env \<Rightarrow> string \<Rightarrow> string \<Rightarrow> int \<Rightarrow> nat \<Rightarrow> order_item list \<Rightarrow> exn option \<times> event list" where
  "update_items env now gid bunjangOrderId k [] = (None, [])"
| "update_items env now gid bunjangOrderId k (orderItem # rest) =
     (case status_branch env now gid bunjangOrderId k orderItem of
        (Some e, evs) \<Rightarrow> (Some e, evs)
      | (None, evs) \<Rightarrow>
          (case write_order (stampWrite env k) gid []
                  [bunjang_field ''last_status_sync'' now ''date_time'',
                   bunjang_field ''last_bunjang_status'' (item_status orderItem)
                     ''single_line_text_field''] of
             (Some e, evs') \<Rightarrow> (Some e, evs @ evs')
           | (None, evs') \<Rightarrow>
               (case update_items env now gid bunjangOrderId (Suc k) rest of
                  (r, evs'') \<Rightarrow> (r, evs @ evs' @ evs''))))"

definition updateShopifyOrderFromBunjangStatus ::
  "status_env \<Rightarrow> string \<Rightarrow> bunjang_order \<Rightarrow> exn option \<times> event list" where
  "updateShopifyOrderFromBunjangStatus env now bunjangOrder =
     (case findOrderByBunjangId env of
        Rejects e \<Rightarrow> (Some e, [FindOrderByBunjangId (bunjang_order_id bunjangOrder)])
      | Resolves None \<Rightarrow> (None, [FindOrderByBunjangId (bunjang_order_id bunjangOrder)])
      | Resolves (Some shopifyOrderGid) \<Rightarrow>
          (case update_items env now shopifyOrderGid (bunjang_order_id bunjangOrder) 0
                  (orderItems bunjangOrder) of
             (r, evs) \<Rightarrow> (r, FindOrderByBunjangId (bunjang_order_id bunjangOrder) # evs)))"

text \<open>
  A page of \<open>getBunjangOrders\<close>; each order comes with the replies to the calls made
  while it is synced.
\<close>

record orders_page =
  page_data :: "(bunjang_order \<times> status_env) list option"
  totalPages :: "int option"

record poll_state =
  page :: nat
  syncedCount :: nat
  errorCount :: nat
  trace :: "event list"

text \<open>The inner \<open>for\<close> loop with its \<open>try\<close> and \<open>catch\<close>: the orders of one page.\<close>

fun sync_orders :: "string \<Rightarrow> (bunjang_order \<times> status_env) list \<Rightarrow> poll_state \<Rightarrow> poll_state" where
  "sync_orders now [] st = st"
| "sync_orders now ((bunjangOrder, env) # rest) st =
     (case updateShopifyOrderFromBunjangStatus env now bunjangOrder of
        (None, evs) \<Rightarrow>
          sync_orders now rest (st\<lparr>syncedCount := syncedCount st + 1, trace := trace st @ evs\<rparr>)
      | (Some e, evs) \<Rightarrow>
          sync_orders now rest
            (st\<lparr>errorCount := errorCount st + 1,
                trace := trace st @ evs @ [SyncFailed (bunjang_order_id bunjangOrder)]\<rparr>))"

record sync_counts =
  sync_success :: bool
  syncedOrders :: nat
  errors :: nat

definition counts_of :: "poll_state \<Rightarrow> sync_counts" where
  "counts_of st = \<lparr>sync_success = True, syncedOrders = syncedCount st, errors = errorCount st\<rparr>"

text \<open>\<open>!ordersResponse || !ordersResponse.data\<close>\<close>

definition orders_of :: "orders_page option \<Rightarrow> (bunjang_order \<times> status_env) list option" where
  "orders_of resp = (case resp of None \<Rightarrow> None | Some p \<Rightarrow> page_data p)"

text \<open>\<open>page < (ordersResponse.totalPages - 1)\<close>; with no page count the comparison is false.\<close>

definition hasMore :: "nat \<Rightarrow> orders_page option \<Rightarrow> bool" where
  "hasMore p resp =
     (case resp of
        None \<Rightarrow> False
      | Some r \<Rightarrow> (case totalPages r of None \<Rightarrow> False | Some n \<Rightarrow> int p < n - 1))"

text \<open>
  One round of the \<open>while\<close> loop: either the run ends (\<open>Inl\<close>: with the exception of the
  page fetch, re-thrown by the outer \<open>catch\<close>, or with the counts) or it goes on to the
  next page.
\<close>

definition page_step ::
  "(nat \<Rightarrow> orders_page option outcome) \<Rightarrow> string \<Rightarrow> poll_state
     \<Rightarrow> ((exn + sync_counts) \<times> event list) + poll_state" where
  "page_step getBunjangOrders now st =
     (case getBunjangOrders (page st) of
        Rejects e \<Rightarrow> Inl (Inl e, trace st @ [GetBunjangOrders (page st) False])
      | Resolves ordersResponse \<Rightarrow>
          (case orders_of ordersResponse of
             None \<Rightarrow> Inl (Inr (counts_of st), trace st @ [GetBunjangOrders (page st) True])
           | Some orders \<Rightarrow>
               let st' = sync_orders now orders
                           (st\<lparr>trace := trace st @ [GetBunjangOrders (page st) True]\<rparr>)
               in if hasMore (page st) ordersResponse
                  then Inr (st'\<lparr>page := page st + 1\<rparr>)
                  else Inl (Inr (counts_of st'), trace st')))"

text \<open>The \<open>while\<close> loop: it ends only when a page says there is no further page.\<close>

partial_function (option) poll ::
  "(nat \<Rightarrow> orders_page option outcome) \<Rightarrow> string \<Rightarrow> poll_state
     \<Rightarrow> ((exn + sync_counts) \<times> event list) option" where
  "poll getBunjangOrders now st =
     (case page_step getBunjangOrders now st of
        Inl final \<Rightarrow> Some final
      | Inr st' \<Rightarrow> poll getBunjangOrders now st')"

text \<open>
  The dates are given by their time values in milliseconds, \<open>None\<close> for an invalid date,
  on which \<open>toISOString\<close> throws a \<open>RangeError\<close>. \<open>diffDays\<close> is a quotient of
  millisecond counts, compared with 15 as a number.
\<close>

definition syncBunjangOrderStatuses ::
  "(nat \<Rightarrow> orders_page option outcome) \<Rightarrow> string \<Rightarrow> int option \<Rightarrow> int option
     \<Rightarrow> ((exn + sync_counts) \<times> event list) option" where
  "syncBunjangOrderStatuses getBunjangOrders now startDate endDate =
     (case (startDate, endDate) of
        (Some startDateUTC, Some endDateUTC) \<Rightarrow>
          let diffDays = real_of_int (endDateUTC - startDateUTC) / (1000 * 60 * 60 * 24)
          in if diffDays > 15 then Some (Inl (ValidationError ''dateRange''), [])
             else poll getBunjangOrders now \<lparr>page = 0, syncedCount = 0, errorCount = 0, trace = []\<rparr>
      | _ \<Rightarrow> Some (Inl RangeError, []))"

section \<open>Observations on event lists\<close>

text \<open>
  The marketplace orders produced (the ids returned by the order-creation call, as the
  strings the code keeps), the payloads submitted, the writes that reached the Shopify
  order, and the line items the loop has visited.
\<close>

fun produced :: "event list \<Rightarrow> string list" where
  "produced [] = []"
| "produced (CreateBunjangOrderV2 p (Some i) # evs) = js_String i # produced evs"
| "produced (ev # evs) = produced evs"

fun submitted :: "event list \<Rightarrow> order_payload list" where
  "submitted [] = []"
| "submitted (CreateBunjangOrderV2 p r # evs) = p # submitted evs"
| "submitted (ev # evs) = submitted evs"

fun recorded_writes :: "event list \<Rightarrow> (string list \<times> metafield list) list" where
  "recorded_writes [] = []"
| "recorded_writes (UpdateOrder g tags mfs True # evs) = (tags, mfs) # recorded_writes evs"
| "recorded_writes (ev # evs) = recorded_writes evs"

fun visited :: "event list \<Rightarrow> string option list" where
  "visited [] = []"
| "visited (Skipped s # evs) = s # visited evs"
| "visited (Found s p # evs) = Some s # visited evs"
| "visited (ev # evs) = visited evs"

fun pushed :: "event list \<Rightarrow> int list" where
  "pushed [] = []"
| "pushed (UpdateInventoryLevel item q # evs) = q # pushed evs"
| "pushed (ev # evs) = pushed evs"

text \<open>Events that neither visit a line item nor submit a payload.\<close>

fun quiet :: "event \<Rightarrow> bool" where
  "quiet (Skipped s) = False"
| "quiet (Found s p) = False"
| "quiet (CreateBunjangOrderV2 p r) = False"
| "quiet ev = True"

definition returned_ids :: "order_result \<Rightarrow> string list" where
  "returned_ids r = (case bunjangOrderIds r of None \<Rightarrow> [] | Some ids \<Rightarrow> ids)"

text \<open>
  The state of the loop agrees with what has happened: the ids kept are those of the
  orders produced, the flag says whether there is one, and every payload submitted had a
  delivery price of zero.
\<close>

definition sound :: "loop_state \<Rightarrow> bool" where
  "sound s \<longleftrightarrow>
     createdBunjangOrderIds s = produced (events s)
     \<and> bunjangOrderSuccessfullyCreatedOverall s = (produced (events s) \<noteq> [])
     \<and> (\<forall>p \<in> set (submitted (events s)). deliveryPrice p = 0)"

text \<open>
  The processing of a linked item fails when it does not get through steps 1 to 5: no
  product detail, no payload, no order id, or an exception on the way.
\<close>

definition item_failed :: "item_env \<Rightarrow> bool" where
  "item_failed env =
     (case productDetails env of
        Resolves (Some d) \<Rightarrow>
          (case mapShopifyItemToBunjangOrderPayload env of
             Resolves (Some p) \<Rightarrow>
               (case createBunjangOrderV2 env of
                  Resolves resp \<Rightarrow>
                    truthy_id resp = None \<or> updateOrder env PlacedTag \<noteq> Resolves ()
                | Rejects e \<Rightarrow> True)
           | _ \<Rightarrow> True)
      | _ \<Rightarrow> True)"

text \<open>
  The order-creation call answers the item with the domain code \<open>POINT_SHORTAGE\<close>, and
  the write of the inner \<open>catch\<close> goes through.
\<close>

definition point_shortage :: "item_env \<Rightarrow> bool" where
  "point_shortage env =
     (case productDetails env of
        Resolves (Some d) \<Rightarrow>
          (case mapShopifyItemToBunjangOrderPayload env of
             Resolves (Some p) \<Rightarrow>
               (case createBunjangOrderV2 env of
                  Rejects e \<Rightarrow>
                    response_code e = Some ''POINT_SHORTAGE''
                    \<and> updateOrder env CreateFailTag = Resolves ()
                | Resolves resp \<Rightarrow> False)
           | _ \<Rightarrow> False)
      | _ \<Rightarrow> False)"

text \<open>A write that records a failure of the item with product id \<open>pid\<close>.\<close>

definition failure_record :: "string \<Rightarrow> string \<Rightarrow> string list \<times> metafield list \<Rightarrow> bool" where
  "failure_record ident pid w =
     (case fst w of
        [a, b] \<Rightarrow> a = ident @ ''_Error'' \<and> take (length (''PID-'' @ pid)) b = ''PID-'' @ pid
      | _ \<Rightarrow> False)"

text \<open>
  What \<open>checkAndSyncBunjangInventory\<close> gives for one product of the full sync, and the
  three ways the loop counts it.
\<close>

definition check_result :: "synced_product \<times> check_env \<Rightarrow> exn + int" where
  "check_result x = fst (checkAndSyncBunjangInventory (snd x) (pid_of (fst x)))"

definition is_synced :: "exn + int \<Rightarrow> bool" where
  "is_synced r = (case r of Inl e \<Rightarrow> False | Inr q \<Rightarrow> 0 \<le> q)"

definition is_skipped :: "exn + int \<Rightarrow> bool" where
  "is_skipped r = (case r of Inl e \<Rightarrow> False | Inr q \<Rightarrow> q < 0)"

definition is_failed :: "exn + int \<Rightarrow> bool" where
  "is_failed r = (case r of Inl e \<Rightarrow> True | Inr q \<Rightarrow> False)"

definition low_entries :: "synced_product \<times> check_env \<Rightarrow> low_stock_entry list" where
  "low_entries x =
     (case check_result x of
        Inl e \<Rightarrow> []
      | Inr q \<Rightarrow>
          if 0 \<le> q \<and> q \<le> 5
          then [\<lparr>ls_bunjangPid = bunjangPid (fst x), ls_productName = bunjangProductName (fst x),
                 ls_currentStock = q\<rparr>]
          else [])"

text \<open>
  In the events of a status run: the page fetches that failed, the marketplace orders
  whose synchronisation was started (each starts with the search for its Shopify order),
  and the failures that were logged.
\<close>

fun fetch_failed :: "event \<Rightarrow> bool" where
  "fetch_failed (GetBunjangOrders p ok) = (\<not> ok)"
| "fetch_failed ev = False"

fun attempted :: "event list \<Rightarrow> int list" where
  "attempted [] = []"
| "attempted (FindOrderByBunjangId i # evs) = i # attempted evs"
| "attempted (ev # evs) = attempted evs"

fun logged_failures :: "event list \<Rightarrow> int list" where
  "logged_failures [] = []"
| "logged_failures (SyncFailed i # evs) = i # logged_failures evs"
| "logged_failures (ev # evs) = logged_failures evs"

definition order_fails :: "string \<Rightarrow> bunjang_order \<times> status_env \<Rightarrow> bool" where
  "order_fails now x = (fst (updateShopifyOrderFromBunjangStatus (snd x) now (fst x)) \<noteq> None)"

text \<open>
  The counters agree with the events: every order started is counted once, as synced or
  as an error, the errors are the failures logged, and no page fetch has failed.
\<close>

definition tallied :: "nat \<Rightarrow> nat \<Rightarrow> event list \<Rightarrow> bool" where
  "tallied n_synced n_errors evs \<longleftrightarrow>
     n_synced + n_errors = length (attempted evs)
     \<and> n_errors = length (logged_failures evs)
     \<and> filter fetch_failed evs = []"

section \<open>Concrete scenarios\<close>

text \<open>
  Order 987 with two linked line items, as in the end-to-end scenarios: Bunjang reports a
  price of 50,000 and a shipping fee of 3,000 for the product; the mapper leaves the
  shipping fee in the payload.
\<close>

definition cfg0 :: config where
  "cfg0 = \<lparr>orderIdentifierPrefix = ''bungjang_order_'', lowBalanceThreshold = 1000000\<rparr>"

definition details0 :: product_details where
  "details0 = \<lparr>price = 50000, shippingFee = Some 3000, quantity = Some 3\<rparr>"

definition payload0 :: order_payload where
  "payload0 = \<lparr>product_id = ''12345'', product_price = 50000, deliveryPrice = 3000\<rparr>"

definition env_placed :: item_env where
  "env_placed =
     \<lparr>productDetails = Resolves (Some details0),
      mapShopifyItemToBunjangOrderPayload = Resolves (Some payload0),
      createBunjangOrderV2 = Resolves (Some \<lparr>response_id = Some 555\<rparr>),
      getBunjangPointBalance = Resolves (Some 2000000),
      updateOrder = (\<lambda>place. Resolves ())\<rparr>"

text \<open>The order-creation call is refused for lack of points.\<close>

definition env_shortage :: item_env where
  "env_shortage =
     env_placed\<lparr>createBunjangOrderV2 :=
                  Rejects (ServiceError ''Request failed'' (Some ''POINT_SHORTAGE''))\<rparr>"

text \<open>The same while Shopify refuses every write.\<close>

definition env_outage :: item_env where
  "env_outage =
     env_shortage\<lparr>updateOrder := (\<lambda>place. Rejects (ServiceError ''Service Unavailable'' None))\<rparr>"

definition envs_B :: "nat \<Rightarrow> item_env" where
  "envs_B i = (if i = 0 then env_shortage else env_placed)"

definition envs_outage :: "nat \<Rightarrow> item_env" where
  "envs_outage i = (if i = 0 then env_outage else env_placed)"

definition order987 :: webhook_order where
  "order987 =
     \<lparr>order_id = Some 987, admin_graphql_api_id = Some ''gid://shopify/Order/987'',
      line_items = Some [\<lparr>sku = Some ''BJ-12345'', item_product_id = 1, item_quantity = 1\<rparr>,
                         \<lparr>sku = Some ''BJ-67890'', item_product_id = 2, item_quantity = 1\<rparr>],
      cancelled_at = None\<rparr>"

definition order_unlinked :: webhook_order where
  "order_unlinked =
     \<lparr>order_id = Some 988, admin_graphql_api_id = Some ''gid://shopify/Order/988'',
      line_items = Some [\<lparr>sku = Some ''TSHIRT-1'', item_product_id = 3, item_quantity = 2\<rparr>,
                         \<lparr>sku = None, item_product_id = 4, item_quantity = 1\<rparr>],
      cancelled_at = None\<rparr>"

text \<open>An order with the single item \<open>BJ-12345\<close>, refused for lack of points.\<close>

definition envs_refused :: "nat \<Rightarrow> item_env" where
  "envs_refused i = env_shortage"

definition order989 :: webhook_order where
  "order989 =
     \<lparr>order_id = Some 989, admin_graphql_api_id = Some ''gid://shopify/Order/989'',
      line_items = Some [\<lparr>sku = Some ''BJ-12345'', item_product_id = 1, item_quantity = 1\<rparr>],
      cancelled_at = None\<rparr>"

definition state0 :: loop_state where
  "state0 = \<lparr>createdBunjangOrderIds = [], bunjangOrderSuccessfullyCreatedOverall = False,
             events = []\<rparr>"

text \<open>What scenario B does, event by event.\<close>

definition events_B :: "event list" where
  "events_B =
     [Found ''BJ-12345'' ''12345'', GetBunjangProductDetails ''12345'',
      CreateBunjangOrderV2 (payload0\<lparr>deliveryPrice := 0\<rparr>) None,
      UpdateOrder ''gid://shopify/Order/987''
        [''bungjang_order_987_Error'', ''PID-12345-InsufficientPoints''] [] True,
      Found ''BJ-67890'' ''67890'', GetBunjangProductDetails ''67890'',
      CreateBunjangOrderV2 (payload0\<lparr>deliveryPrice := 0\<rparr>) (Some 555),
      UpdateOrder ''gid://shopify/Order/987''
        [''BunjangOrderPlaced'', ''bungjang_order_987'', ''BunjangOrderID-555'']
        (metafieldsInput 555 ''67890'' (payload0\<lparr>deliveryPrice := 0\<rparr>) 3000) True,
      GetBunjangPointBalance]"

text \<open>The same order while Shopify refuses every write.\<close>

definition events_outage :: "event list" where
  "events_outage =
     [Found ''BJ-12345'' ''12345'', GetBunjangProductDetails ''12345'',
      CreateBunjangOrderV2 (payload0\<lparr>deliveryPrice := 0\<rparr>) None,
      UpdateOrder ''gid://shopify/Order/987''
        [''bungjang_order_987_Error'', ''PID-12345-InsufficientPoints''] [] False,
      UpdateOrder ''gid://shopify/Order/987''
        [''bungjang_order_987_Error'', ''PID-12345-Exception''] [] False]"

text \<open>
  Order 987 when the first item is placed as marketplace order 555 and the creation for the
  second is refused while Shopify refuses the writes that follow.
\<close>

definition envs_lost :: "nat \<Rightarrow> item_env" where
  "envs_lost i = (if i = 0 then env_placed else env_outage)"

definition events_lost :: "event list" where
  "events_lost =
     [Found ''BJ-12345'' ''12345'', GetBunjangProductDetails ''12345'',
      CreateBunjangOrderV2 (payload0\<lparr>deliveryPrice := 0\<rparr>) (Some 555),
      UpdateOrder ''gid://shopify/Order/987''
        [''BunjangOrderPlaced'', ''bungjang_order_987'', ''BunjangOrderID-555'']
        (metafieldsInput 555 ''12345'' (payload0\<lparr>deliveryPrice := 0\<rparr>) 3000) True,
      GetBunjangPointBalance,
      Found ''BJ-67890'' ''67890'', GetBunjangProductDetails ''67890'',
      CreateBunjangOrderV2 (payload0\<lparr>deliveryPrice := 0\<rparr>) None,
      UpdateOrder ''gid://shopify/Order/987''
        [''bungjang_order_987_Error'', ''PID-67890-InsufficientPoints''] [] False,
      UpdateOrder ''gid://shopify/Order/987''
        [''bungjang_order_987_Error'', ''PID-67890-Exception''] [] False]"

text \<open>
  A product link for Bunjang product 12345 whose Shopify variant shows 3 units, and the
  ways its synchronisation can go.
\<close>

definition link1 :: synced_product where
  "link1 =
     \<lparr>bunjangPid = Some ''12345'', shopifyGid = Some ''gid://shopify/Product/1'',
      bunjangProductName = ''Album'', bunjangQuantity = Some 2, syncStatus = SYNCED\<rparr>"

definition variant1 :: variant where
  "variant1 = \<lparr>inventoryItemId = ''gid://shopify/InventoryItem/7'', inventoryQuantity = Some 3\<rparr>"

definition sync_ok :: sync_env where
  "sync_ok =
     \<lparr>findOne = Resolves (Some link1), shopifyGraphqlRequest = Resolves (Some [variant1]),
      updateInventoryLevel = Resolves (), updateOne = Resolves ()\<rparr>"

definition sync_no_link :: sync_env where
  "sync_no_link = sync_ok\<lparr>findOne := Resolves None\<rparr>"

definition sync_no_gid :: sync_env where
  "sync_no_gid = sync_ok\<lparr>findOne := Resolves (Some (link1\<lparr>shopifyGid := None\<rparr>))\<rparr>"

definition sync_no_variant :: sync_env where
  "sync_no_variant = sync_ok\<lparr>shopifyGraphqlRequest := Resolves (Some [])\<rparr>"

definition check_ok :: check_env where
  "check_ok = \<lparr>getBunjangProductDetails = Resolves (Some details0), sync = sync_ok\<rparr>"

definition check_no_quantity :: check_env where
  "check_no_quantity =
     \<lparr>getBunjangProductDetails = Resolves (Some (details0\<lparr>quantity := None\<rparr>)), sync = sync_ok\<rparr>"

definition check_unknown :: check_env where
  "check_unknown = \<lparr>getBunjangProductDetails = Resolves None, sync = sync_ok\<rparr>"

definition check_down :: check_env where
  "check_down =
     \<lparr>getBunjangProductDetails = Rejects (ServiceError ''timeout'' None), sync = sync_ok\<rparr>"

text \<open>The product is fetched, and the Shopify query of the synchronisation throws.\<close>

definition check_sync_down :: check_env where
  "check_sync_down =
     \<lparr>getBunjangProductDetails = Resolves (Some details0),
      sync = sync_ok\<lparr>shopifyGraphqlRequest := Rejects (ServiceError ''Throttled'' None)\<rparr>\<rparr>"

text \<open>
  Scenario C: three SYNCED links and one PENDING; the second product cannot be fetched and
  its cached quantity is 2, the fetch of the third throws.
\<close>

definition link2 :: synced_product where
  "link2 = link1\<lparr>bunjangPid := Some ''222'', bunjangProductName := ''Poster''\<rparr>"

definition link3 :: synced_product where
  "link3 = link1\<lparr>bunjangPid := Some ''333'', bunjangProductName := ''Badge''\<rparr>"

definition link4 :: synced_product where
  "link4 = link1\<lparr>bunjangPid := Some ''444'', syncStatus := PENDING\<rparr>"

definition envs_C :: "nat \<Rightarrow> check_env" where
  "envs_C i = (if i = 0 then check_ok else if i = 1 then check_unknown else check_down)"

text \<open>
  A webhook for a line item of the linked product while Bunjang cannot be asked for it: a
  cancelled order with an ordered quantity of 0 and one with an ordered quantity of 1.
\<close>

definition hooks_unknown :: "nat \<Rightarrow> hook_env" where
  "hooks_unknown i = \<lparr>lookup = Resolves (Some link1), check = check_unknown, push = sync_ok\<rparr>"

definition hooks_ok :: "nat \<Rightarrow> hook_env" where
  "hooks_ok i = \<lparr>lookup = Resolves (Some link1), check = check_ok, push = sync_ok\<rparr>"

definition cancelled0 :: webhook_order where
  "cancelled0 =
     \<lparr>order_id = Some 990, admin_graphql_api_id = Some ''gid://shopify/Order/990'',
      line_items = Some [\<lparr>sku = Some ''BJ-12345'', item_product_id = 1, item_quantity = 0\<rparr>],
      cancelled_at = Some ''2025-06-01T09:00:00+09:00''\<rparr>"

definition cancelled1 :: webhook_order where
  "cancelled1 =
     \<lparr>order_id = Some 991, admin_graphql_api_id = Some ''gid://shopify/Order/991'',
      line_items = Some [\<lparr>sku = Some ''BJ-12345'', item_product_id = 1, item_quantity = 1\<rparr>],
      cancelled_at = Some ''2025-06-01T09:00:00+09:00''\<rparr>"

text \<open>
  Requests to the webhook routes. The crypto module is replaced by a stand-in: one fixed
  signature for every payload, and a decoder that keeps the text.
\<close>

definition crypto0 :: crypto where
  "crypto0 =
     \<lparr>hmac_sha256_base64 = (\<lambda>secret payload. ''c2lnbmVk''),
      base64_decode = (\<lambda>s. s),
      json_parse = (\<lambda>s. Some (Some order987))\<rparr>"

definition request_good :: request where
  "request_good = \<lparr>hmac_header = Some ''c2lnbmVk'', rawBody = Some (Buf ''{}''), body = None\<rparr>"

definition request_unsigned :: request where
  "request_unsigned = request_good\<lparr>hmac_header := None\<rparr>"

definition request_parsed_early :: request where
  "request_parsed_early = request_good\<lparr>rawBody := None\<rparr>"

definition request_forged :: request where
  "request_forged = request_good\<lparr>hmac_header := Some ''Zm9yZ2Vk''\<rparr>"

definition collection_C :: "synced_product list" where
  "collection_C = [link1, link2, link4, link3]"

text \<open>
  A status run over two pages: on the first page one order is synced and the Shopify
  search for the other throws; on the second page one order has no Shopify order.
\<close>

definition status_found :: status_env where
  "status_found =
     \<lparr>findOrderByBunjangId = Resolves (Some ''gid://shopify/Order/987''),
      statusWrite = (\<lambda>k. Resolves ()), stampWrite = (\<lambda>k. Resolves ())\<rparr>"

definition status_unreachable :: status_env where
  "status_unreachable =
     status_found\<lparr>findOrderByBunjangId := Rejects (ServiceError ''throttled'' None)\<rparr>"

definition status_unknown :: status_env where
  "status_unknown = status_found\<lparr>findOrderByBunjangId := Resolves None\<rparr>"

definition bunjang_order_555 :: bunjang_order where
  "bunjang_order_555 =
     \<lparr>bunjang_order_id = 555,
      orderItems = [\<lparr>item_status = ''REFUNDED'', purchaseConfirmedAt = None\<rparr>]\<rparr>"

definition bunjang_order_556 :: bunjang_order where
  "bunjang_order_556 = bunjang_order_555\<lparr>bunjang_order_id := 556\<rparr>"

definition bunjang_order_557 :: bunjang_order where
  "bunjang_order_557 = bunjang_order_555\<lparr>bunjang_order_id := 557\<rparr>"

definition two_pages :: "nat \<Rightarrow> orders_page option outcome" where
  "two_pages p =
     (if p = 0 then
        Resolves (Some \<lparr>page_data = Some [(bunjang_order_555, status_found),
                                          (bunjang_order_556, status_unreachable)],
                        totalPages = Some 2\<rparr>)
      else
        Resolves (Some \<lparr>page_data = Some [(bunjang_order_557, status_unknown)],
                        totalPages = Some 2\<rparr>))"

text \<open>The same when the fetch of the second page throws.\<close>

definition broken_pages :: "nat \<Rightarrow> orders_page option outcome" where
  "broken_pages p = (if p = 0 then two_pages 0 else Rejects (ServiceError ''HTTP 502'' None))"

definition events_page0 :: "event list" where
  "events_page0 =
     [GetBunjangOrders 0 True,
      FindOrderByBunjangId 555,
      UpdateOrder ''gid://shopify/Order/987''
        [''BunjangStatus-REFUNDED'', ''BunjangOrder-555-REFUNDED''] [] True,
      UpdateOrder ''gid://shopify/Order/987'' []
        [bunjang_field ''last_status_sync'' ''2025-06-01T00:00:00.000Z'' ''date_time'',
         bunjang_field ''last_bunjang_status'' ''REFUNDED'' ''single_line_text_field''] True,
      FindOrderByBunjangId 556, SyncFailed 556]"

definition now0 :: string where
  "now0 = ''2025-06-01T00:00:00.000Z''"

definition events_two_pages :: "event list" where
  "events_two_pages = events_page0 @ [GetBunjangOrders 1 True, FindOrderByBunjangId 557]"

definition events_broken :: "event list" where
  "events_broken = events_page0 @ [GetBunjangOrders 1 False]"

section \<open>Properties of the order service\<close>

subsection \<open>Decimal digits\<close>

lemma digits_small: "n < 10 \<Longrightarrow> digits n = [''0123456789'' ! n]"
  by (simp add: digits.simps)

lemma digits_large: "10 \<le> n \<Longrightarrow> digits n = digits (n div 10) @ [''0123456789'' ! (n mod 10)]"
  by (subst digits.simps) simp

lemma js_String_examples:
  "js_String 987 = ''987''" "js_String 988 = ''988''" "js_String 989 = ''989''"
  "js_String 555 = ''555''" "js_String 3000 = ''3000''" "js_String 50000 = ''50000''"
  by (simp_all add: js_String_def digits_small digits_large)

subsection \<open>The scenarios, evaluated\<close>

lemmas order_defs =
  processShopifyOrderForBunjang_def process_item_def create_order_def catch_def and_then_def
  tag_order_def emit_def record_created_def check_balance_def truthy_id_def errorTag_def
  truthy_def linked_def sku_of_def pid_of_sku_def or_zero_def metafieldsInput_def
  bunjang_field_def Let_def

lemmas scenario_defs =
  cfg0_def envs_B_def envs_outage_def envs_refused_def envs_lost_def env_placed_def
  env_shortage_def
  env_outage_def order987_def order989_def payload0_def details0_def state0_def

lemma scenario_B_run:
  "processShopifyOrderForBunjang cfg0 envs_B order987 =
     (Inr \<lparr>success = True, bunjangOrderIds = Some [''555''], message = CreatedMessage ''555''\<rparr>,
      events_B)"
  by (simp add: order_defs scenario_defs events_B_def js_String_examples)

lemma scenario_outage_run:
  "processShopifyOrderForBunjang cfg0 envs_outage order987 =
     (Inl (ServiceError ''Service Unavailable'' None), events_outage)"
  by (simp add: order_defs scenario_defs events_outage_def js_String_examples)

lemma scenario_refused_run:
  "processShopifyOrderForBunjang cfg0 envs_refused order989 =
     (Inr \<lparr>success = False, bunjangOrderIds = None, message = NotCreatedMessage\<rparr>,
      [Found ''BJ-12345'' ''12345'', GetBunjangProductDetails ''12345'',
       CreateBunjangOrderV2 (payload0\<lparr>deliveryPrice := 0\<rparr>) None,
       UpdateOrder ''gid://shopify/Order/989''
         [''bungjang_order_989_Error'', ''PID-12345-InsufficientPoints''] [] True])"
  by (simp add: order_defs scenario_defs js_String_examples)

subsection \<open>Observations and appended events\<close>

lemma produced_append: "produced (xs @ ys) = produced xs @ produced ys"
  by (induction xs rule: produced.induct) simp_all

lemma submitted_append: "submitted (xs @ ys) = submitted xs @ submitted ys"
  by (induction xs rule: submitted.induct) simp_all

lemma recorded_writes_append:
  "recorded_writes (xs @ ys) = recorded_writes xs @ recorded_writes ys"
  by (induction xs rule: recorded_writes.induct) simp_all

lemma visited_append: "visited (xs @ ys) = visited xs @ visited ys"
  by (induction xs rule: visited.induct) simp_all

subsection \<open>Every state the loop can reach\<close>

text \<open>
  A property of the loop state holds after an item, and after the whole loop, as soon as
  it survives the four things the code does to the state: a quiet event, the visit of an
  item, a refused submission and a placed order. All payloads submitted have a delivery
  price of zero.
\<close>

lemma catch_snd:
  "P (snd a) \<Longrightarrow> (\<And>e s. P s \<Longrightarrow> P (snd (h e s))) \<Longrightarrow> P (snd (catch a h))"
  by (cases a) (auto simp add: catch_def split: option.splits)

lemma and_then_snd:
  "P (snd a) \<Longrightarrow> (\<And>s. P s \<Longrightarrow> P (snd (f s))) \<Longrightarrow> P (snd (and_then a f))"
  by (cases a) (auto simp add: and_then_def split: option.splits)

lemma tag_order_reach:
  assumes "P s" and "\<And>ev s. P s \<Longrightarrow> quiet ev \<Longrightarrow> P (emit ev s)"
  shows "P (snd (tag_order env place gid tags mfs s))"
  using assms by (cases "updateOrder env place") (simp_all add: tag_order_def)

lemma check_balance_reach:
  assumes "P s" and q: "\<And>ev s. P s \<Longrightarrow> quiet ev \<Longrightarrow> P (emit ev s)"
  shows "P (check_balance cfg env gid s)"
proof -
  have s1: "P (emit GetBunjangPointBalance s)" using assms by simp
  show ?thesis
    using s1 tag_order_reach [of P "emit GetBunjangPointBalance s", OF s1 q]
    by (simp add: check_balance_def Let_def split: outcome.splits option.splits)
qed

lemma create_order_reach:
  assumes s: "P s"
    and q: "\<And>ev s. P s \<Longrightarrow> quiet ev \<Longrightarrow> P (emit ev s)"
    and refused: "\<And>s. P s \<Longrightarrow> P (emit (CreateBunjangOrderV2 payload None) s)"
    and placed: "\<And>i s. P s \<Longrightarrow>
                   P (record_created i (emit (CreateBunjangOrderV2 payload (Some i)) s))"
  shows "P (snd (create_order cfg env ident gid pid payload fee s))"
  unfolding create_order_def
proof (rule catch_snd [where P = P])
  fix e s' assume "P s'"
  then show "P (snd (tag_order env CreateFailTag gid [ident @ ''_Error'', errorTag pid e] [] s'))"
    using q by (rule tag_order_reach)
next
  have after_placed: "P (snd (and_then
                   (tag_order env PlacedTag gid tags mfs
                      (record_created i (emit (CreateBunjangOrderV2 payload (Some i)) s)))
                   (\<lambda>s'. (None, check_balance cfg env gid s'))))" for i tags mfs
  proof (rule and_then_snd [where P = P])
    show "P (snd (tag_order env PlacedTag gid tags mfs
                      (record_created i (emit (CreateBunjangOrderV2 payload (Some i)) s))))"
      using placed [OF s] q by (rule tag_order_reach)
  next
    fix s' assume "P s'"
    then show "P (snd (None, check_balance cfg env gid s'))"
      using check_balance_reach [of P s', OF _ q] by simp
  qed
  have after_refused: "P (snd (tag_order env place gid tags mfs
                                 (emit (CreateBunjangOrderV2 payload None) s)))" for place tags mfs
    using refused [OF s] q by (rule tag_order_reach)
  show "P (snd (case createBunjangOrderV2 env of
          Rejects apiError \<Rightarrow> (Some apiError, emit (CreateBunjangOrderV2 payload None) s)
        | Resolves bunjangApiResponse \<Rightarrow>
            (case truthy_id bunjangApiResponse of
               Some bunjangOrderId \<Rightarrow>
                 and_then
                   (tag_order env PlacedTag gid
                      [''BunjangOrderPlaced'', ident, ''BunjangOrderID-'' @ js_String bunjangOrderId]
                      (metafieldsInput bunjangOrderId pid payload fee)
                      (record_created bunjangOrderId
                         (emit (CreateBunjangOrderV2 payload (Some bunjangOrderId)) s)))
                   (\<lambda>s'. (None, check_balance cfg env gid s'))
             | None \<Rightarrow>
                 tag_order env NoOrderIdTag gid
                   [ident @ ''_Error'', ''PID-'' @ pid @ ''-NoOrderId''] []
                   (emit (CreateBunjangOrderV2 payload None) s))))"
    using refused [OF s] after_placed after_refused
    by (simp split: outcome.splits option.splits)
qed

lemma process_item_reach:
  assumes s: "P s"
    and q: "\<And>ev s. P s \<Longrightarrow> quiet ev \<Longrightarrow> P (emit ev s)"
    and refused: "\<And>p s. P s \<Longrightarrow> deliveryPrice p = 0 \<Longrightarrow> P (emit (CreateBunjangOrderV2 p None) s)"
    and placed: "\<And>p i s. P s \<Longrightarrow> deliveryPrice p = 0 \<Longrightarrow>
                   P (record_created i (emit (CreateBunjangOrderV2 p (Some i)) s))"
  shows "P (snd (process_item cfg ident gid pid env s))"
  unfolding process_item_def
proof (rule catch_snd [where P = P])
  fix e s' assume "P s'"
  then show "P (snd (tag_order env ExceptionTag gid
                       [ident @ ''_Error'', ''PID-'' @ pid @ ''-Exception''] [] s'))"
    using q by (rule tag_order_reach)
next
  have s0: "P (emit (GetBunjangProductDetails pid) s)" using s q by simp
  have tagged: "P (snd (tag_order env place gid tags []
                          (emit (GetBunjangProductDetails pid) s)))" for place tags
    using s0 q by (rule tag_order_reach)
  have created: "P (snd (create_order cfg env ident gid pid (p\<lparr>deliveryPrice := 0\<rparr>) fee
                           (emit (GetBunjangProductDetails pid) s)))" for p fee
    using s0 q by (rule create_order_reach) (simp_all add: refused placed)
  show "P (snd (case productDetails env of
          Rejects e \<Rightarrow> (Some e, emit (GetBunjangProductDetails pid) s)
        | Resolves None \<Rightarrow>
            tag_order env NotFoundTag gid [ident @ ''_Error'', ''PID-'' @ pid @ ''-NotFound''] []
              (emit (GetBunjangProductDetails pid) s)
        | Resolves (Some bunjangProductDetails) \<Rightarrow>
            (case mapShopifyItemToBunjangOrderPayload env of
               Rejects e \<Rightarrow> (Some e, emit (GetBunjangProductDetails pid) s)
             | Resolves None \<Rightarrow>
                 tag_order env MapFailTag gid [ident @ ''_Error'', ''PID-'' @ pid @ ''-MapFail''] []
                   (emit (GetBunjangProductDetails pid) s)
             | Resolves (Some bunjangOrderPayload) \<Rightarrow>
                 create_order cfg env ident gid pid
                   (bunjangOrderPayload\<lparr>deliveryPrice := 0\<rparr>)
                   (or_zero (shippingFee bunjangProductDetails))
                   (emit (GetBunjangProductDetails pid) s))))"
    using s0 tagged created by (simp split: outcome.splits option.splits)
qed

lemma process_items_reach:
  assumes s: "P s"
    and q: "\<And>ev s. P s \<Longrightarrow> quiet ev \<Longrightarrow> P (emit ev s)"
    and skip: "\<And>x s. P s \<Longrightarrow> P (emit (Skipped x) s)"
    and found: "\<And>x y s. P s \<Longrightarrow> P (emit (Found x y) s)"
    and refused: "\<And>p s. P s \<Longrightarrow> deliveryPrice p = 0 \<Longrightarrow> P (emit (CreateBunjangOrderV2 p None) s)"
    and placed: "\<And>p i s. P s \<Longrightarrow> deliveryPrice p = 0 \<Longrightarrow>
                   P (record_created i (emit (CreateBunjangOrderV2 p (Some i)) s))"
  shows "P (snd (process_items cfg ident gid envs i items s))"
  using s
proof (induction items arbitrary: i s)
  case Nil
  then show ?case by simp
next
  case (Cons item rest)
  show ?case
  proof (cases "linked item")
    case False
    then show ?thesis using Cons.IH [OF skip [OF Cons.prems]] by simp
  next
    case True
    obtain r s' where eq: "process_item cfg ident gid (pid_of_sku item) (envs i)
                   (emit (Found (sku_of item) (pid_of_sku item)) s) = (r, s')"
      by (cases "process_item cfg ident gid (pid_of_sku item) (envs i)
                   (emit (Found (sku_of item) (pid_of_sku item)) s)")
    have "P (snd (process_item cfg ident gid (pid_of_sku item) (envs i)
                   (emit (Found (sku_of item) (pid_of_sku item)) s)))"
      using found [OF Cons.prems] q refused placed by (rule process_item_reach)
    then have step: "P s'" by (simp add: eq)
    show ?thesis
      using True eq step Cons.IH [OF step, of "Suc i"] by (cases r) simp_all
  qed
qed

subsection \<open>The ids kept are the orders produced\<close>

lemma sound_quiet: "sound s \<Longrightarrow> quiet ev \<Longrightarrow> sound (emit ev s)"
  by (cases ev) (simp_all add: sound_def emit_def produced_append submitted_append)

lemma sound_visit:
  "sound s \<Longrightarrow> sound (emit (Skipped x) s)" "sound s \<Longrightarrow> sound (emit (Found y z) s)"
  by (simp_all add: sound_def emit_def produced_append submitted_append)

lemma sound_refused:
  "sound s \<Longrightarrow> deliveryPrice p = 0 \<Longrightarrow> sound (emit (CreateBunjangOrderV2 p None) s)"
  by (simp add: sound_def emit_def produced_append submitted_append)

lemma sound_placed:
  "sound s \<Longrightarrow> deliveryPrice p = 0 \<Longrightarrow>
   sound (record_created i (emit (CreateBunjangOrderV2 p (Some i)) s))"
  by (simp add: sound_def emit_def record_created_def produced_append submitted_append)

lemma process_items_sound:
  assumes "sound s"
  shows "sound (snd (process_items cfg ident gid envs i items s))"
  using assms sound_quiet sound_visit sound_refused sound_placed
  by (rule process_items_reach [where P = sound])

lemma process_items_unlinked:
  "\<forall>item \<in> set items. \<not> linked item \<Longrightarrow>
   process_items cfg ident gid envs i items s =
     (None, s\<lparr>events := events s @ map (\<lambda>item. Skipped (sku item)) items\<rparr>)"
  by (induction items arbitrary: i s) (simp_all add: emit_def)

subsection \<open>When the write of the outer handler goes through\<close>

lemma process_item_returns:
  assumes "updateOrder env ExceptionTag = Resolves ()"
  shows "fst (process_item cfg ident gid pid env s) = None"
  using assms
  by (simp add: process_item_def catch_def tag_order_def split: prod.splits option.splits)

lemma process_items_returns:
  assumes "\<forall>j<length items. updateOrder (envs (i + j)) ExceptionTag = Resolves ()"
  shows "fst (process_items cfg ident gid envs i items s) = None"
  using assms
proof (induction items arbitrary: i s)
  case Nil
  then show ?case by simp
next
  case (Cons item rest)
  have here: "updateOrder (envs i) ExceptionTag = Resolves ()"
    using Cons.prems by force
  have later: "\<forall>j<length rest. updateOrder (envs (Suc i + j)) ExceptionTag = Resolves ()"
    using Cons.prems by force
  obtain r s' where eq: "process_item cfg ident gid (pid_of_sku item) (envs i)
                   (emit (Found (sku_of item) (pid_of_sku item)) s) = (r, s')"
    by (cases "process_item cfg ident gid (pid_of_sku item) (envs i)
                   (emit (Found (sku_of item) (pid_of_sku item)) s)")
  have "r = None"
    using process_item_returns [OF here, of cfg ident gid "pid_of_sku item"
            "emit (Found (sku_of item) (pid_of_sku item)) s"] eq by simp
  then show ?case
    using Cons.IH [OF later] eq by simp
qed

text \<open>
  What a result says when there is one. For an order with a numeric id, a global id and a
  non-empty list of line items: in a result of \<open>processShopifyOrderForBunjang\<close>,
  \<open>success\<close> is true exactly when at least one marketplace order was produced, and the ids
  are exactly the ids of the orders produced, in order; with no line item carrying the
  \<open>BJ-\<close> prefix the result is \<open>success = false\<close>, every item skipped and nothing
  submitted. There is a result whenever the write of the outer handler goes through for
  every item; the run below shows that there need not be one otherwise.
\<close>

lemma processShopifyOrderForBunjang_result:
  assumes "order_id shopifyOrder = Some n" and "n \<noteq> 0"
    and "admin_graphql_api_id shopifyOrder = Some gid" and "gid \<noteq> []"
    and "line_items shopifyOrder = Some items" and "items \<noteq> []"
  shows "(\<forall>r evs. processShopifyOrderForBunjang cfg envs shopifyOrder = (Inr r, evs)
            \<longrightarrow> (success r \<longleftrightarrow> produced evs \<noteq> []) \<and> returned_ids r = produced evs)
       \<and> ((\<forall>item \<in> set items. \<not> linked item)
            \<longrightarrow> processShopifyOrderForBunjang cfg envs shopifyOrder =
                  (Inr \<lparr>success = False, bunjangOrderIds = None, message = NotCreatedMessage\<rparr>,
                   map (\<lambda>item. Skipped (sku item)) items)
                \<and> submitted (map (\<lambda>item. Skipped (sku item)) items) = [])
       \<and> ((\<forall>i<length items. updateOrder (envs i) ExceptionTag = Resolves ())
            \<longrightarrow> (\<exists>r evs. processShopifyOrderForBunjang cfg envs shopifyOrder = (Inr r, evs)))"
proof -
  let ?s0 = "\<lparr>createdBunjangOrderIds = [], bunjangOrderSuccessfullyCreatedOverall = False,
              events = []\<rparr>"
  let ?run = "process_items cfg (orderIdentifierPrefix cfg @ js_String n) gid envs 0 items ?s0"
  have unfold: "processShopifyOrderForBunjang cfg envs shopifyOrder =
      (case ?run of
         (Some e, s) \<Rightarrow> (Inl e, events s)
       | (None, s) \<Rightarrow>
           if bunjangOrderSuccessfullyCreatedOverall s
           then (Inr \<lparr>success = True, bunjangOrderIds = Some (createdBunjangOrderIds s),
                      message = CreatedMessage (join (createdBunjangOrderIds s))\<rparr>, events s)
           else (Inr \<lparr>success = False, bunjangOrderIds = None, message = NotCreatedMessage\<rparr>,
                 events s))"
    using assms by (simp add: processShopifyOrderForBunjang_def)
  have "sound ?s0" by (simp add: sound_def)
  then have inv: "sound (snd ?run)" by (rule process_items_sound)
  have first: "(success r \<longleftrightarrow> produced evs \<noteq> []) \<and> returned_ids r = produced evs"
    if "processShopifyOrderForBunjang cfg envs shopifyOrder = (Inr r, evs)" for r evs
    using that inv unfolding unfold
    by (cases ?run) (auto simp add: sound_def returned_ids_def split: option.splits if_splits)
  have second: "processShopifyOrderForBunjang cfg envs shopifyOrder =
                  (Inr \<lparr>success = False, bunjangOrderIds = None, message = NotCreatedMessage\<rparr>,
                   map (\<lambda>item. Skipped (sku item)) items)
                \<and> submitted (map (\<lambda>item. Skipped (sku item)) items) = []"
    if "\<forall>item \<in> set items. \<not> linked item"
  proof -
    have "submitted (map (\<lambda>item. Skipped (sku item)) xs) = []" for xs :: "line_item list"
      by (induction xs) simp_all
    then show ?thesis
      unfolding unfold by (simp add: process_items_unlinked [OF that])
  qed
  have third: "\<exists>r evs. processShopifyOrderForBunjang cfg envs shopifyOrder = (Inr r, evs)"
    if "\<forall>i<length items. updateOrder (envs i) ExceptionTag = Resolves ()"
  proof -
    have "fst ?run = None" using that by (intro process_items_returns) simp
    then show ?thesis unfolding unfold by (cases ?run) simp
  qed
  show ?thesis using first second third by blast
qed

lemma scenario_B_returns: "\<forall>i<2. updateOrder (envs_B i) ExceptionTag = Resolves ()"
  by (simp add: envs_B_def env_placed_def env_shortage_def)

lemma processShopifyOrderForBunjang_result_scenario_B:
  "(\<exists>r evs. processShopifyOrderForBunjang cfg0 envs_B order987 = (Inr r, evs)
       \<and> (success r \<longleftrightarrow> produced evs \<noteq> []) \<and> returned_ids r = produced evs)
   \<and> processShopifyOrderForBunjang cfg0 envs_B order_unlinked =
       (Inr \<lparr>success = False, bunjangOrderIds = None, message = NotCreatedMessage\<rparr>,
        [Skipped (Some ''TSHIRT-1''), Skipped None])"
proof -
  have linked_order:
    "(\<forall>r evs. processShopifyOrderForBunjang cfg0 envs_B order987 = (Inr r, evs)
            \<longrightarrow> (success r \<longleftrightarrow> produced evs \<noteq> []) \<and> returned_ids r = produced evs)
     \<and> (\<exists>r evs. processShopifyOrderForBunjang cfg0 envs_B order987 = (Inr r, evs))"
    using processShopifyOrderForBunjang_result
            [of order987 987 "''gid://shopify/Order/987''"
                "[\<lparr>sku = Some ''BJ-12345'', item_product_id = 1, item_quantity = 1\<rparr>,
                  \<lparr>sku = Some ''BJ-67890'', item_product_id = 2, item_quantity = 1\<rparr>]"
                cfg0 envs_B]
          scenario_B_returns
    by (simp add: order987_def)
  have unlinked_order:
    "processShopifyOrderForBunjang cfg0 envs_B order_unlinked =
       (Inr \<lparr>success = False, bunjangOrderIds = None, message = NotCreatedMessage\<rparr>,
        [Skipped (Some ''TSHIRT-1''), Skipped None])"
    using processShopifyOrderForBunjang_result
            [of order_unlinked 988 "''gid://shopify/Order/988''"
                "[\<lparr>sku = Some ''TSHIRT-1'', item_product_id = 3, item_quantity = 2\<rparr>,
                  \<lparr>sku = None, item_product_id = 4, item_quantity = 1\<rparr>]"
                cfg0 envs_B]
    by (simp add: order_unlinked_def linked_def)
  show ?thesis using linked_order unlinked_order by blast
qed

text \<open>
  C1. Not every order with a numeric id, a global id and a non-empty list of line items
  gets the result that tells what was produced. In order 987 the first line item is placed
  as marketplace order 555, tags and metafields written; the creation for the second item
  is refused, and Shopify rejects the write of the failure tag in the inner handler (line
  168) and then the write in the outer handler (line 176). That last write is outside every
  \<open>try\<close>, so its exception ends the loop and \<open>processShopifyOrderForBunjang\<close> throws:
  a marketplace order was produced, and neither \<open>success = true\<close> nor the id 555 is
  returned.
\<close>

theorem produced_order_is_not_returned:
  "processShopifyOrderForBunjang cfg0 envs_lost order987 =
     (Inl (ServiceError ''Service Unavailable'' None), events_lost)
   \<and> produced events_lost = [''555'']"
  by (simp add: order_defs scenario_defs events_lost_def js_String_examples)

subsection \<open>The zero delivery fee and the metadata of a placed order\<close>

lemma js_String_0: "js_String 0 = ''0''"
  by (simp add: js_String_def digits_small)

lemma events_kept_by_tag:
  "ev \<in> set (events s) \<Longrightarrow> ev \<in> set (events (snd (tag_order env place gid tags mfs s)))"
  by (rule tag_order_reach [where P = "\<lambda>s. ev \<in> set (events s)"]) (simp_all add: emit_def)

lemma events_kept_by_balance:
  "ev \<in> set (events s) \<Longrightarrow> ev \<in> set (events (check_balance cfg env gid s))"
  by (rule check_balance_reach [where P = "\<lambda>s. ev \<in> set (events s)"]) (simp_all add: emit_def)

lemma placed_order_events:
  assumes "createBunjangOrderV2 env = Resolves resp" and "truthy_id resp = Some i"
    and ev: "ev = CreateBunjangOrderV2 payload (Some i)
             \<or> ev = UpdateOrder gid [''BunjangOrderPlaced'', ident, ''BunjangOrderID-'' @ js_String i]
                    (metafieldsInput i pid payload fee) (updateOrder env PlacedTag = Resolves ())"
  shows "ev \<in> set (events (snd (create_order cfg env ident gid pid payload fee s)))"
proof -
  let ?placed = "tag_order env PlacedTag gid
                  [''BunjangOrderPlaced'', ident, ''BunjangOrderID-'' @ js_String i]
                  (metafieldsInput i pid payload fee)
                  (record_created i (emit (CreateBunjangOrderV2 payload (Some i)) s))"
  have unfold: "create_order cfg env ident gid pid payload fee s =
      catch (and_then ?placed (\<lambda>s'. (None, check_balance cfg env gid s')))
        (\<lambda>apiError s'.
           tag_order env CreateFailTag gid [ident @ ''_Error'', errorTag pid apiError] [] s')"
    using assms(1,2) by (simp add: create_order_def)
  have written: "ev \<in> set (events (snd ?placed))"
    using ev
    by (cases "updateOrder env PlacedTag")
       (auto simp add: tag_order_def emit_def record_created_def)
  show ?thesis
    unfolding unfold
  proof (rule catch_snd [where P = "\<lambda>s. ev \<in> set (events s)"])
    show "ev \<in> set (events (snd (and_then ?placed (\<lambda>s'. (None, check_balance cfg env gid s')))))"
      using written
      by (rule and_then_snd [where P = "\<lambda>s. ev \<in> set (events s)"])
         (simp add: events_kept_by_balance)
  qed (rule events_kept_by_tag)
qed

lemma process_items_zero_fee:
  "\<forall>p \<in> set (submitted (events (snd (process_items cfg ident gid envs 0 items
       \<lparr>createdBunjangOrderIds = [], bunjangOrderSuccessfullyCreatedOverall = False,
        events = []\<rparr>)))). deliveryPrice p = 0"
proof -
  have "sound \<lparr>createdBunjangOrderIds = [], bunjangOrderSuccessfullyCreatedOverall = False,
               events = []\<rparr>"
    by (simp add: sound_def)
  then have "sound (snd (process_items cfg ident gid envs 0 items
       \<lparr>createdBunjangOrderIds = [], bunjangOrderSuccessfullyCreatedOverall = False,
        events = []\<rparr>))"
    by (rule process_items_sound)
  then show ?thesis by (simp add: sound_def)
qed

lemma events_of_run:
  "snd (processShopifyOrderForBunjang cfg envs shopifyOrder) =
     (case (order_id shopifyOrder, admin_graphql_api_id shopifyOrder, line_items shopifyOrder) of
        (Some n, Some gid, Some items) \<Rightarrow>
          if n = 0 \<or> gid = [] \<or> items = [] then []
          else events (snd (process_items cfg (orderIdentifierPrefix cfg @ js_String n) gid envs 0
                 items
                 \<lparr>createdBunjangOrderIds = [], bunjangOrderSuccessfullyCreatedOverall = False,
                  events = []\<rparr>))
      | _ \<Rightarrow> [])"
  by (simp add: processShopifyOrderForBunjang_def split: option.splits prod.splits)

lemma submitted_of_run:
  "\<forall>p \<in> set (submitted (snd (processShopifyOrderForBunjang cfg envs shopifyOrder))).
     deliveryPrice p = 0"
  unfolding events_of_run using process_items_zero_fee
  by (simp split: option.splits)

text \<open>
  C9, as amended. Every payload submitted by \<open>processShopifyOrderForBunjang\<close> has a
  delivery price of zero, whatever the mapper put there and whatever the product's
  shipping fee is. For an item whose order-creation call returns an order id, the payload
  submitted is the mapper's with the delivery price set to zero, and the write to the
  Shopify order that follows carries the metafield \<open>api_sent_shipping_fee_krw\<close> with value
  0 and the metafield \<open>actual_bunjang_shipping_fee_krw\<close> with the product's shipping fee
  (0 when the product has none); that write is recorded when Shopify accepts it.
\<close>

theorem zero_delivery_fee_policy:
  "(\<forall>p \<in> set (submitted (snd (processShopifyOrderForBunjang cfg envs shopifyOrder))).
      deliveryPrice p = 0)
   \<and> (productDetails env = Resolves (Some d)
        \<and> mapShopifyItemToBunjangOrderPayload env = Resolves (Some p)
        \<and> createBunjangOrderV2 env = Resolves resp \<and> truthy_id resp = Some i
      \<longrightarrow> CreateBunjangOrderV2 (p\<lparr>deliveryPrice := 0\<rparr>) (Some i)
            \<in> set (events (snd (process_item cfg ident gid pid env s)))
        \<and> UpdateOrder gid [''BunjangOrderPlaced'', ident, ''BunjangOrderID-'' @ js_String i]
            (metafieldsInput i pid (p\<lparr>deliveryPrice := 0\<rparr>) (or_zero (shippingFee d)))
            (updateOrder env PlacedTag = Resolves ())
            \<in> set (events (snd (process_item cfg ident gid pid env s)))
        \<and> bunjang_field ''api_sent_shipping_fee_krw'' ''0'' ''number_integer''
            \<in> set (metafieldsInput i pid (p\<lparr>deliveryPrice := 0\<rparr>) (or_zero (shippingFee d)))
        \<and> bunjang_field ''actual_bunjang_shipping_fee_krw'' (js_String (or_zero (shippingFee d)))
              ''number_integer''
            \<in> set (metafieldsInput i pid (p\<lparr>deliveryPrice := 0\<rparr>) (or_zero (shippingFee d))))"
proof -
  have item: "CreateBunjangOrderV2 (p\<lparr>deliveryPrice := 0\<rparr>) (Some i)
            \<in> set (events (snd (process_item cfg ident gid pid env s)))
        \<and> UpdateOrder gid [''BunjangOrderPlaced'', ident, ''BunjangOrderID-'' @ js_String i]
            (metafieldsInput i pid (p\<lparr>deliveryPrice := 0\<rparr>) (or_zero (shippingFee d)))
            (updateOrder env PlacedTag = Resolves ())
            \<in> set (events (snd (process_item cfg ident gid pid env s)))"
    if env: "productDetails env = Resolves (Some d)"
         "mapShopifyItemToBunjangOrderPayload env = Resolves (Some p)"
         "createBunjangOrderV2 env = Resolves resp" "truthy_id resp = Some i"
  proof -
    let ?inner = "create_order cfg env ident gid pid (p\<lparr>deliveryPrice := 0\<rparr>)
                    (or_zero (shippingFee d)) (emit (GetBunjangProductDetails pid) s)"
    have inner: "CreateBunjangOrderV2 (p\<lparr>deliveryPrice := 0\<rparr>) (Some i) \<in> set (events (snd ?inner))
        \<and> UpdateOrder gid [''BunjangOrderPlaced'', ident, ''BunjangOrderID-'' @ js_String i]
            (metafieldsInput i pid (p\<lparr>deliveryPrice := 0\<rparr>) (or_zero (shippingFee d)))
            (updateOrder env PlacedTag = Resolves ()) \<in> set (events (snd ?inner))"
      using placed_order_events [OF env(3,4)] by blast
    have outer: "ev \<in> set (events (snd ?inner))
                 \<Longrightarrow> ev \<in> set (events (snd (process_item cfg ident gid pid env s)))" for ev
      using env(1,2)
      by (cases ?inner) (auto simp add: process_item_def catch_def split: option.splits
                           dest: events_kept_by_tag)
    show ?thesis using inner outer by blast
  qed
  have fields: "bunjang_field ''api_sent_shipping_fee_krw'' ''0'' ''number_integer''
            \<in> set (metafieldsInput i pid (p\<lparr>deliveryPrice := 0\<rparr>) (or_zero (shippingFee d)))
        \<and> bunjang_field ''actual_bunjang_shipping_fee_krw'' (js_String (or_zero (shippingFee d)))
              ''number_integer''
            \<in> set (metafieldsInput i pid (p\<lparr>deliveryPrice := 0\<rparr>) (or_zero (shippingFee d)))"
    by (simp add: metafieldsInput_def js_String_0)
  show ?thesis using submitted_of_run item fields by blast
qed

theorem metadata_counterexample:
  "submitted (snd (processShopifyOrderForBunjang cfg0 envs_refused order989))
     = [payload0\<lparr>deliveryPrice := 0\<rparr>]
   \<and> recorded_writes (snd (processShopifyOrderForBunjang cfg0 envs_refused order989))
     = [([''bungjang_order_989_Error'', ''PID-12345-InsufficientPoints''], [])]"
  by (simp add: scenario_refused_run)

theorem zero_delivery_fee_policy_witness:
  "submitted (snd (processShopifyOrderForBunjang cfg0 envs_B order987)) \<noteq> []
   \<and> map deliveryPrice (submitted (snd (processShopifyOrderForBunjang cfg0 envs_B order987)))
       = [0, 0]
   \<and> CreateBunjangOrderV2 (payload0\<lparr>deliveryPrice := 0\<rparr>) (Some 555)
        \<in> set (events (snd (process_item cfg0 ''bungjang_order_987'' ''gid://shopify/Order/987''
                               ''67890'' env_placed state0)))
   \<and> UpdateOrder ''gid://shopify/Order/987''
        [''BunjangOrderPlaced'', ''bungjang_order_987'', ''BunjangOrderID-'' @ js_String 555]
        (metafieldsInput 555 ''67890'' (payload0\<lparr>deliveryPrice := 0\<rparr>) 3000) True
        \<in> set (events (snd (process_item cfg0 ''bungjang_order_987'' ''gid://shopify/Order/987''
                               ''67890'' env_placed state0)))
   \<and> bunjang_field ''api_sent_shipping_fee_krw'' ''0'' ''number_integer''
        \<in> set (metafieldsInput 555 ''67890'' (payload0\<lparr>deliveryPrice := 0\<rparr>) 3000)
   \<and> bunjang_field ''actual_bunjang_shipping_fee_krw'' (js_String 3000) ''number_integer''
        \<in> set (metafieldsInput 555 ''67890'' (payload0\<lparr>deliveryPrice := 0\<rparr>) 3000)"
proof -
  have some: "submitted (snd (processShopifyOrderForBunjang cfg0 envs_B order987)) \<noteq> []"
    by (simp add: scenario_B_run events_B_def)
  have two: "length (submitted (snd (processShopifyOrderForBunjang cfg0 envs_B order987))) = 2"
    by (simp add: scenario_B_run events_B_def)
  have all_zero: "map deliveryPrice xs = [0, 0]"
    if "length xs = 2" and "\<forall>p \<in> set xs. deliveryPrice p = 0" for xs :: "order_payload list"
    using that by (cases xs; cases "tl xs") auto
  show ?thesis
    using some two all_zero
      zero_delivery_fee_policy
        [of cfg0 envs_B order987 env_placed details0 payload0 "Some \<lparr>response_id = Some 555\<rparr>"
            555 "''bungjang_order_987''" "''gid://shopify/Order/987''" "''67890''" state0]
    by (simp add: env_placed_def details0_def truthy_id_def or_zero_def)
qed

subsection \<open>Failures of single items\<close>

lemma quiet_not_visit: "quiet ev \<Longrightarrow> visited [ev] = []"
  by (cases ev) simp_all

lemma process_item_visits_nothing:
  "visited (events (snd (process_item cfg ident gid pid env s))) = visited (events s)"
  by (rule process_item_reach [where P = "\<lambda>s'. visited (events s') = visited (events s)"])
     (simp_all add: emit_def record_created_def visited_append quiet_not_visit)

lemma linked_sku: "linked item \<Longrightarrow> sku item = Some (sku_of item)"
  by (simp add: linked_def sku_of_def split: option.splits)

lemma process_items_visits:
  assumes "fst (process_items cfg ident gid envs i items s) = None"
  shows "visited (events (snd (process_items cfg ident gid envs i items s)))
           = visited (events s) @ map sku items"
  using assms
proof (induction items arbitrary: i s)
  case Nil
  then show ?case by simp
next
  case (Cons item rest)
  show ?case
  proof (cases "linked item")
    case False
    then show ?thesis
      using Cons.IH [of "Suc i" "emit (Skipped (sku item)) s"] Cons.prems
      by (simp add: emit_def visited_append)
  next
    case True
    obtain r s' where eq: "process_item cfg ident gid (pid_of_sku item) (envs i)
                   (emit (Found (sku_of item) (pid_of_sku item)) s) = (r, s')"
      by (cases "process_item cfg ident gid (pid_of_sku item) (envs i)
                   (emit (Found (sku_of item) (pid_of_sku item)) s)")
    have r: "r = None" using Cons.prems True eq by (cases r) simp_all
    have "visited (events s') = visited (events (emit (Found (sku_of item) (pid_of_sku item)) s))"
      using process_item_visits_nothing
              [of cfg ident gid "pid_of_sku item" "envs i"
                  "emit (Found (sku_of item) (pid_of_sku item)) s"] eq by simp
    then have here: "visited (events s') = visited (events s) @ [sku item]"
      using True by (simp add: emit_def visited_append linked_sku)
    have rest: "fst (process_items cfg ident gid envs (Suc i) rest s') = None"
      using Cons.prems True eq r by simp
    show ?thesis
      using True eq r here Cons.IH [OF rest] by simp
  qed
qed

lemma failure_record_intro [simp]:
  "failure_record ident pid
     ([ident @ ''_Error'', CHR ''P'' # CHR ''I'' # CHR ''D'' # CHR ''-'' # pid @ suffix], mfs)"
  by (simp add: failure_record_def)

lemma errorTag_form: "\<exists>suffix. errorTag pid e = ''PID-'' @ pid @ suffix"
  by (simp add: errorTag_def split: option.splits)

lemma failure_record_errorTag [simp]:
  "failure_record ident pid ([ident @ ''_Error'', errorTag pid e], mfs)"
  using errorTag_form [of pid e] by auto

text \<open>A write that went through stays among the recorded writes.\<close>

lemma recorded_kept_by_emit:
  "w \<in> set (recorded_writes (events s)) \<Longrightarrow> w \<in> set (recorded_writes (events (emit ev s)))"
  by (simp add: emit_def recorded_writes_append)

lemma recorded_kept_by_items:
  "w \<in> set (recorded_writes (events s))
   \<Longrightarrow> w \<in> set (recorded_writes (events (snd (process_items cfg ident gid envs i items s))))"
  by (rule process_items_reach [where P = "\<lambda>s. w \<in> set (recorded_writes (events s))"])
     (simp_all add: recorded_kept_by_emit record_created_def)

lemma tag_recorded:
  assumes "fst (tag_order env place gid tags mfs s) = None"
  shows "(tags, mfs) \<in> set (recorded_writes (events (snd (tag_order env place gid tags mfs s))))"
  using assms
  by (cases "updateOrder env place") (simp_all add: tag_order_def emit_def recorded_writes_append)

lemma failure_tag_recorded:
  assumes "fst (tag_order env place gid [ident @ ''_Error'', ''PID-'' @ pid @ suffix] [] s) = None"
  shows "\<exists>w \<in> set (recorded_writes (events (snd
            (tag_order env place gid [ident @ ''_Error'', ''PID-'' @ pid @ suffix] [] s)))).
           failure_record ident pid w"
  using tag_recorded [OF assms] failure_record_intro [of ident pid suffix "[]"]
  by (intro bexI [of _ "([ident @ ''_Error'', ''PID-'' @ pid @ suffix], [])"]) simp_all

lemma error_tag_recorded:
  assumes "fst (tag_order env place gid [ident @ ''_Error'', errorTag pid e] [] s) = None"
  shows "\<exists>w \<in> set (recorded_writes (events (snd
            (tag_order env place gid [ident @ ''_Error'', errorTag pid e] [] s)))).
           failure_record ident pid w"
  using tag_recorded [OF assms]
  by (intro bexI [of _ "([ident @ ''_Error'', errorTag pid e], [])"]) simp_all

lemma caught_failure:
  assumes "fst (catch a h) = None"
    and "\<And>e s. a = (Some e, s) \<Longrightarrow> fst (h e s) = None
           \<Longrightarrow> \<exists>w \<in> set (recorded_writes (events (snd (h e s)))). R w"
    and "\<And>s. a = (None, s) \<Longrightarrow> \<exists>w \<in> set (recorded_writes (events s)). R w"
  shows "\<exists>w \<in> set (recorded_writes (events (snd (catch a h)))). R w"
proof (cases a)
  case (Pair r s)
  show ?thesis
  proof (cases r)
    case None
    then show ?thesis using assms(3) [of s] Pair by (simp add: catch_def)
  next
    case (Some e)
    then show ?thesis using assms(1) assms(2) [of e s] Pair by (simp add: catch_def)
  qed
qed

lemma create_order_records:
  assumes returns: "fst (create_order cfg env ident gid pid payload fee s) = None"
    and failed: "case createBunjangOrderV2 env of
           Rejects e \<Rightarrow> True
         | Resolves resp \<Rightarrow> truthy_id resp = None \<or> updateOrder env PlacedTag \<noteq> Resolves ()"
  shows "\<exists>w \<in> set (recorded_writes (events (snd (create_order cfg env ident gid pid payload fee s)))).
           failure_record ident pid w"
  using returns unfolding create_order_def
proof (rule caught_failure)
  fix e s'
  assume "fst (tag_order env CreateFailTag gid [ident @ ''_Error'', errorTag pid e] [] s') = None"
  then show "\<exists>w \<in> set (recorded_writes (events (snd
                (tag_order env CreateFailTag gid [ident @ ''_Error'', errorTag pid e] [] s')))).
               failure_record ident pid w"
    by (rule error_tag_recorded)
next
  fix s'
  assume attempt: "(case createBunjangOrderV2 env of
          Rejects apiError \<Rightarrow> (Some apiError, emit (CreateBunjangOrderV2 payload None) s)
        | Resolves bunjangApiResponse \<Rightarrow>
            (case truthy_id bunjangApiResponse of
               Some bunjangOrderId \<Rightarrow>
                 and_then
                   (tag_order env PlacedTag gid
                      [''BunjangOrderPlaced'', ident, ''BunjangOrderID-'' @ js_String bunjangOrderId]
                      (metafieldsInput bunjangOrderId pid payload fee)
                      (record_created bunjangOrderId
                         (emit (CreateBunjangOrderV2 payload (Some bunjangOrderId)) s)))
                   (\<lambda>s'. (None, check_balance cfg env gid s'))
             | None \<Rightarrow>
                 tag_order env NoOrderIdTag gid
                   [ident @ ''_Error'', ''PID-'' @ pid @ ''-NoOrderId''] []
                   (emit (CreateBunjangOrderV2 payload None) s))) = (None, s')"
  show "\<exists>w \<in> set (recorded_writes (events s')). failure_record ident pid w"
  proof (cases "createBunjangOrderV2 env")
    case (Rejects e)
    then show ?thesis using attempt by simp
  next
    case (Resolves resp)
    show ?thesis
    proof (cases "truthy_id resp")
      case None
      then have "tag_order env NoOrderIdTag gid
                   [ident @ ''_Error'', ''PID-'' @ pid @ ''-NoOrderId''] []
                   (emit (CreateBunjangOrderV2 payload None) s) = (None, s')"
        using attempt Resolves by simp
      then show ?thesis
        using failure_tag_recorded [of env NoOrderIdTag gid ident pid "''-NoOrderId''"
                "emit (CreateBunjangOrderV2 payload None) s"]
        by simp
    next
      case (Some i)
      then have "updateOrder env PlacedTag \<noteq> Resolves ()"
        using failed Resolves by simp
      then obtain e where "updateOrder env PlacedTag = Rejects e"
        by (cases "updateOrder env PlacedTag") simp_all
      then show ?thesis
        using attempt Resolves Some by (simp add: and_then_def tag_order_def)
    qed
  qed
qed

lemma process_item_records:
  assumes handler: "updateOrder env ExceptionTag = Resolves ()" and failed: "item_failed env"
  shows "\<exists>w \<in> set (recorded_writes (events (snd (process_item cfg ident gid pid env s)))).
           failure_record ident pid w"
proof -
  have returns: "fst (process_item cfg ident gid pid env s) = None"
    using handler by (rule process_item_returns)
  show ?thesis
    using returns unfolding process_item_def
  proof (rule caught_failure)
    fix e s'
    assume "fst (tag_order env ExceptionTag gid [ident @ ''_Error'', ''PID-'' @ pid @ ''-Exception''] [] s') = None"
    then show "\<exists>w \<in> set (recorded_writes (events (snd
                (tag_order env ExceptionTag gid [ident @ ''_Error'', ''PID-'' @ pid @ ''-Exception''] [] s')))).
               failure_record ident pid w"
      by (rule failure_tag_recorded)
  next
    fix s'
    assume attempt: "(case productDetails env of
          Rejects e \<Rightarrow> (Some e, emit (GetBunjangProductDetails pid) s)
        | Resolves None \<Rightarrow>
            tag_order env NotFoundTag gid [ident @ ''_Error'', ''PID-'' @ pid @ ''-NotFound''] []
              (emit (GetBunjangProductDetails pid) s)
        | Resolves (Some bunjangProductDetails) \<Rightarrow>
            (case mapShopifyItemToBunjangOrderPayload env of
               Rejects e \<Rightarrow> (Some e, emit (GetBunjangProductDetails pid) s)
             | Resolves None \<Rightarrow>
                 tag_order env MapFailTag gid [ident @ ''_Error'', ''PID-'' @ pid @ ''-MapFail''] []
                   (emit (GetBunjangProductDetails pid) s)
             | Resolves (Some bunjangOrderPayload) \<Rightarrow>
                 create_order cfg env ident gid pid
                   (bunjangOrderPayload\<lparr>deliveryPrice := 0\<rparr>)
                   (or_zero (shippingFee bunjangProductDetails))
                   (emit (GetBunjangProductDetails pid) s))) = (None, s')"
    show "\<exists>w \<in> set (recorded_writes (events s')). failure_record ident pid w"
    proof (cases "productDetails env")
      case (Rejects e)
      then show ?thesis using attempt by simp
    next
      case details: (Resolves found)
      show ?thesis
      proof (cases found)
        case None
        then have "tag_order env NotFoundTag gid [ident @ ''_Error'', ''PID-'' @ pid @ ''-NotFound''] []
              (emit (GetBunjangProductDetails pid) s) = (None, s')"
          using attempt details by simp
        then show ?thesis
          using failure_tag_recorded [of env NotFoundTag gid ident pid "''-NotFound''"
                  "emit (GetBunjangProductDetails pid) s"]
          by simp
      next
        case (Some d)
        show ?thesis
        proof (cases "mapShopifyItemToBunjangOrderPayload env")
          case (Rejects e)
          then show ?thesis using attempt details Some by simp
        next
          case mapped: (Resolves built)
          show ?thesis
          proof (cases built)
            case None
            then have "tag_order env MapFailTag gid [ident @ ''_Error'', ''PID-'' @ pid @ ''-MapFail''] []
                   (emit (GetBunjangProductDetails pid) s) = (None, s')"
              using attempt details Some mapped by simp
            then show ?thesis
              using failure_tag_recorded [of env MapFailTag gid ident pid "''-MapFail''"
                      "emit (GetBunjangProductDetails pid) s"]
              by simp
          next
            case payload: (Some p)
            have run: "create_order cfg env ident gid pid (p\<lparr>deliveryPrice := 0\<rparr>)
                         (or_zero (shippingFee d)) (emit (GetBunjangProductDetails pid) s) = (None, s')"
              using attempt details Some mapped payload by simp
            have "case createBunjangOrderV2 env of
                    Rejects e \<Rightarrow> True
                  | Resolves resp \<Rightarrow> truthy_id resp = None \<or> updateOrder env PlacedTag \<noteq> Resolves ()"
              using failed details Some mapped payload by (simp add: item_failed_def)
            then show ?thesis
              using create_order_records [of cfg env ident gid pid "p\<lparr>deliveryPrice := 0\<rparr>"
                      "or_zero (shippingFee d)" "emit (GetBunjangProductDetails pid) s"] run
              by simp
          qed
        qed
      qed
    qed
  qed
qed

lemma process_item_shortage:
  assumes "point_shortage env"
  shows "([ident @ ''_Error'', ''PID-'' @ pid @ ''-InsufficientPoints''], [])
           \<in> set (recorded_writes (events (snd (process_item cfg ident gid pid env s))))"
proof -
  obtain d where d: "productDetails env = Resolves (Some d)"
    using assms by (auto simp add: point_shortage_def split: outcome.splits option.splits)
  obtain p where p: "mapShopifyItemToBunjangOrderPayload env = Resolves (Some p)"
    using assms d by (auto simp add: point_shortage_def split: outcome.splits option.splits)
  obtain e where e: "createBunjangOrderV2 env = Rejects e"
      "response_code e = Some ''POINT_SHORTAGE''" "updateOrder env CreateFailTag = Resolves ()"
    using assms d p by (auto simp add: point_shortage_def split: outcome.splits)
  have tag: "errorTag pid e = ''PID-'' @ pid @ ''-InsufficientPoints''"
    using e(2) by (simp add: errorTag_def)
  have inner: "create_order cfg env ident gid pid (p\<lparr>deliveryPrice := 0\<rparr>) (or_zero (shippingFee d))
                 (emit (GetBunjangProductDetails pid) s) =
               (None, emit (UpdateOrder gid [ident @ ''_Error'', errorTag pid e] [] True)
                        (emit (CreateBunjangOrderV2 (p\<lparr>deliveryPrice := 0\<rparr>) None)
                           (emit (GetBunjangProductDetails pid) s)))"
    using e(1,3) by (simp add: create_order_def catch_def tag_order_def)
  have "process_item cfg ident gid pid env s =
          (None, emit (UpdateOrder gid [ident @ ''_Error'', errorTag pid e] [] True)
                   (emit (CreateBunjangOrderV2 (p\<lparr>deliveryPrice := 0\<rparr>) None)
                      (emit (GetBunjangProductDetails pid) s)))"
    using d p inner by (simp add: process_item_def catch_def)
  then show ?thesis
    by (simp add: tag emit_def recorded_writes_append)
qed

lemma process_items_item_record:
  assumes "\<forall>j<length items. updateOrder (envs (i + j)) ExceptionTag = Resolves ()"
    and "j < length items" and "linked (items ! j)"
    and "\<And>s. \<exists>w \<in> set (recorded_writes (events (snd
            (process_item cfg ident gid (pid_of_sku (items ! j)) (envs (i + j)) s)))). R w"
  shows "\<exists>w \<in> set (recorded_writes (events (snd (process_items cfg ident gid envs i items s)))).
           R w"
  using assms
proof (induction items arbitrary: i j s)
  case Nil
  then show ?case by simp
next
  case (Cons item rest)
  have later: "\<forall>k<length rest. updateOrder (envs (Suc i + k)) ExceptionTag = Resolves ()"
    using Cons.prems(1) by force
  show ?case
  proof (cases "linked item")
    case False
    then obtain k where k: "j = Suc k" using Cons.prems(3) by (cases j) auto
    have "\<exists>w \<in> set (recorded_writes (events (snd
             (process_items cfg ident gid envs (Suc i) rest (emit (Skipped (sku item)) s))))). R w"
      using Cons.prems(2,3,4) k by (intro Cons.IH [OF later, of k]) simp_all
    then show ?thesis using False by simp
  next
    case True
    have here: "updateOrder (envs i) ExceptionTag = Resolves ()"
      using Cons.prems(1) by force
    obtain r s' where eq: "process_item cfg ident gid (pid_of_sku item) (envs i)
                   (emit (Found (sku_of item) (pid_of_sku item)) s) = (r, s')"
      by (cases "process_item cfg ident gid (pid_of_sku item) (envs i)
                   (emit (Found (sku_of item) (pid_of_sku item)) s)")
    have r: "r = None"
      using process_item_returns [OF here, of cfg ident gid "pid_of_sku item"
              "emit (Found (sku_of item) (pid_of_sku item)) s"] eq by simp
    have unfold: "process_items cfg ident gid envs i (item # rest) s =
                    process_items cfg ident gid envs (Suc i) rest s'"
      using True eq r by simp
    show ?thesis
    proof (cases j)
      case 0
      have "\<exists>w \<in> set (recorded_writes (events s')). R w"
        using Cons.prems(4) [of "emit (Found (sku_of item) (pid_of_sku item)) s"] eq 0 by simp
      then obtain w where "w \<in> set (recorded_writes (events s'))" and "R w" by blast
      then show ?thesis
        unfolding unfold using recorded_kept_by_items [of w s'] by blast
    next
      case (Suc k)
      show ?thesis
        unfolding unfold
        using Cons.prems(2,3,4) Suc by (intro Cons.IH [OF later, of k]) simp_all
    qed
  qed
qed

text \<open>
  What the loop does as long as the write of the outer handler goes through. For an order
  with a numeric id, a global id and a non-empty list of line items, if that write is
  accepted for every item, no exception leaves the loop of
  \<open>processShopifyOrderForBunjang\<close>, every line item is visited, in order, and for every
  linked item whose processing fails (no product detail, no payload, a refused or failed
  order creation, no order id, or any other exception) a write with the tags \<open>\<dots>_Error\<close>
  and \<open>PID-\<dots>\<close> of that item is recorded on the order; for the domain code
  \<open>POINT_SHORTAGE\<close> the recorded tag is \<open>PID-\<dots>-InsufficientPoints\<close>. So the write at
  line 176 is the only place where a failing item can end the loop.
\<close>

lemma failing_items_are_tagged_and_isolated:
  assumes "order_id shopifyOrder = Some n" and "n \<noteq> 0"
    and "admin_graphql_api_id shopifyOrder = Some gid" and "gid \<noteq> []"
    and "line_items shopifyOrder = Some items" and "items \<noteq> []"
    and handler: "\<forall>i<length items. updateOrder (envs i) ExceptionTag = Resolves ()"
  shows "\<exists>r evs. processShopifyOrderForBunjang cfg envs shopifyOrder = (Inr r, evs)
       \<and> visited evs = map sku items
       \<and> (\<forall>i<length items. linked (items ! i) \<and> item_failed (envs i)
            \<longrightarrow> (\<exists>w \<in> set (recorded_writes evs).
                   failure_record (orderIdentifierPrefix cfg @ js_String n)
                     (pid_of_sku (items ! i)) w))
       \<and> (\<forall>i<length items. linked (items ! i) \<and> point_shortage (envs i)
            \<longrightarrow> ([orderIdentifierPrefix cfg @ js_String n @ ''_Error'',
                   ''PID-'' @ pid_of_sku (items ! i) @ ''-InsufficientPoints''], [])
                 \<in> set (recorded_writes evs))"
proof -
  let ?ident = "orderIdentifierPrefix cfg @ js_String n"
  let ?s0 = "\<lparr>createdBunjangOrderIds = [], bunjangOrderSuccessfullyCreatedOverall = False,
              events = []\<rparr>"
  let ?run = "process_items cfg ?ident gid envs 0 items ?s0"
  have all: "\<forall>j<length items. updateOrder (envs (0 + j)) ExceptionTag = Resolves ()"
    using handler by simp
  have returns: "fst ?run = None"
    using all by (rule process_items_returns)
  have events: "snd (processShopifyOrderForBunjang cfg envs shopifyOrder) = events (snd ?run)"
    using assms(1-6) by (simp add: events_of_run)
  have result: "\<exists>r. fst (processShopifyOrderForBunjang cfg envs shopifyOrder) = Inr r"
    using assms(1-6) returns
    by (cases ?run) (simp add: processShopifyOrderForBunjang_def)
  have visits: "visited (events (snd ?run)) = map sku items"
    using process_items_visits [OF returns] by simp
  have tagged: "\<exists>w \<in> set (recorded_writes (events (snd ?run))).
                  failure_record ?ident (pid_of_sku (items ! i)) w"
    if "i < length items" and "linked (items ! i)" and "item_failed (envs i)" for i
  proof (rule process_items_item_record [OF all that(1,2)])
    fix s
    have "updateOrder (envs i) ExceptionTag = Resolves ()" using handler that(1) by simp
    then show "\<exists>w \<in> set (recorded_writes (events (snd
             (process_item cfg ?ident gid (pid_of_sku (items ! i)) (envs (0 + i)) s)))).
             failure_record ?ident (pid_of_sku (items ! i)) w"
      using that(3) by (simp add: process_item_records)
  qed
  have shortage: "([?ident @ ''_Error'', ''PID-'' @ pid_of_sku (items ! i) @ ''-InsufficientPoints''], [])
                    \<in> set (recorded_writes (events (snd ?run)))"
    if "i < length items" and "linked (items ! i)" and "point_shortage (envs i)" for i
  proof -
    have "\<exists>w \<in> set (recorded_writes (events (snd ?run))).
            w = ([?ident @ ''_Error'', ''PID-'' @ pid_of_sku (items ! i) @ ''-InsufficientPoints''], [])"
    proof (rule process_items_item_record [OF all that(1,2)])
      fix s
      show "\<exists>w \<in> set (recorded_writes (events (snd
             (process_item cfg ?ident gid (pid_of_sku (items ! i)) (envs (0 + i)) s)))).
             w = ([?ident @ ''_Error'', ''PID-'' @ pid_of_sku (items ! i) @ ''-InsufficientPoints''], [])"
        using process_item_shortage [OF that(3), of ?ident "pid_of_sku (items ! i)" cfg gid s]
        by simp
    qed
    then show ?thesis by simp
  qed
  obtain r where r: "fst (processShopifyOrderForBunjang cfg envs shopifyOrder) = Inr r"
    using result by blast
  have "processShopifyOrderForBunjang cfg envs shopifyOrder = (Inr r, events (snd ?run))"
    using r events by (cases "processShopifyOrderForBunjang cfg envs shopifyOrder") simp
  then show ?thesis
    using visits tagged shortage by simp
qed

lemma failing_items_are_tagged_and_isolated_scenario_B:
  "\<exists>r evs. processShopifyOrderForBunjang cfg0 envs_B order987 = (Inr r, evs)
     \<and> visited evs = [Some ''BJ-12345'', Some ''BJ-67890'']
     \<and> (\<exists>w \<in> set (recorded_writes evs). failure_record ''bungjang_order_987'' ''12345'' w)
     \<and> ([''bungjang_order_987_Error'', ''PID-12345-InsufficientPoints''], [])
         \<in> set (recorded_writes evs)"
proof -
  let ?items = "[\<lparr>sku = Some ''BJ-12345'', item_product_id = 1, item_quantity = 1\<rparr>,
                 \<lparr>sku = Some ''BJ-67890'', item_product_id = 2, item_quantity = 1\<rparr>]"
  have handler: "\<forall>i<length ?items. updateOrder (envs_B i) ExceptionTag = Resolves ()"
    by (simp add: envs_B_def env_placed_def env_shortage_def)
  have first: "0 < length ?items \<and> linked (?items ! 0) \<and> item_failed (envs_B 0)
               \<and> point_shortage (envs_B 0)"
    by (simp add: linked_def item_failed_def point_shortage_def envs_B_def env_shortage_def
          env_placed_def truthy_def)
  have pid: "pid_of_sku (?items ! 0) = ''12345''"
    by (simp add: pid_of_sku_def sku_of_def)
  obtain r evs where run: "processShopifyOrderForBunjang cfg0 envs_B order987 = (Inr r, evs)"
    and visits: "visited evs = map sku ?items"
    and tagged: "\<forall>i<length ?items. linked (?items ! i) \<and> item_failed (envs_B i)
            \<longrightarrow> (\<exists>w \<in> set (recorded_writes evs).
                   failure_record (orderIdentifierPrefix cfg0 @ js_String 987)
                     (pid_of_sku (?items ! i)) w)"
    and shortage: "\<forall>i<length ?items. linked (?items ! i) \<and> point_shortage (envs_B i)
            \<longrightarrow> ([orderIdentifierPrefix cfg0 @ js_String 987 @ ''_Error'',
                   ''PID-'' @ pid_of_sku (?items ! i) @ ''-InsufficientPoints''], [])
                 \<in> set (recorded_writes evs)"
    using failing_items_are_tagged_and_isolated
            [of order987 987 "''gid://shopify/Order/987''" ?items envs_B cfg0, OF _ _ _ _ _ _ handler]
    by (auto simp add: order987_def)
  have "\<exists>w \<in> set (recorded_writes evs).
          failure_record (orderIdentifierPrefix cfg0 @ js_String 987) (pid_of_sku (?items ! 0)) w"
    using tagged first by blast
  then have t0: "\<exists>w \<in> set (recorded_writes evs). failure_record ''bungjang_order_987'' ''12345'' w"
    unfolding pid by (simp add: cfg0_def js_String_examples)
  have "([orderIdentifierPrefix cfg0 @ js_String 987 @ ''_Error'',
          ''PID-'' @ pid_of_sku (?items ! 0) @ ''-InsufficientPoints''], [])
         \<in> set (recorded_writes evs)"
    using shortage first by blast
  then have s0: "([''bungjang_order_987_Error'', ''PID-12345-InsufficientPoints''], [])
                   \<in> set (recorded_writes evs)"
    unfolding pid by (simp add: cfg0_def js_String_examples)
  show ?thesis
    using run visits t0 s0 by auto
qed

text \<open>
  C2. A failing line item can end the loop. In order 987 the creation for the first item is
  refused with the domain code \<open>POINT_SHORTAGE\<close> while Shopify rejects every write: the
  write of \<open>PID-12345-InsufficientPoints\<close> in the inner handler (line 168) throws into the
  outer handler, whose own write of \<open>PID-12345-Exception\<close> (line 176) is outside every
  \<open>try\<close>. Its exception leaves the loop and the function: no failure tag is recorded on the
  order, and the second line item, whose order would have been placed, is never visited.
\<close>

theorem handler_write_counterexample:
  "processShopifyOrderForBunjang cfg0 envs_outage order987
     = (Inl (ServiceError ''Service Unavailable'' None), events_outage)
   \<and> visited events_outage = [Some ''BJ-12345'']
   \<and> recorded_writes events_outage = []"
  by (simp add: scenario_outage_run events_outage_def)

section \<open>Properties of the inventory service\<close>

lemmas inventory_scenario_defs =
  link1_def link2_def link3_def link4_def variant1_def sync_ok_def sync_no_link_def
  sync_no_gid_def sync_no_variant_def check_ok_def check_no_quantity_def check_unknown_def
  check_down_def check_sync_down_def details0_def envs_C_def hooks_unknown_def hooks_ok_def cancelled0_def
  cancelled1_def

theorem link_without_variant_counterexample:
  "findOne sync_no_variant = Resolves (Some link1)
   \<and> fst (syncBunjangInventoryToShopify sync_no_variant ''12345'' 3) = Inr False"
  by (simp add: syncBunjangInventoryToShopify_def inventory_scenario_defs truthy_def)

text \<open>
  C5, as amended. \<open>syncBunjangInventoryToShopify\<close> returns false, and pushes nothing,
  when the lookup finds no link or a link without a Shopify gid, and also when the link
  exists but Shopify returns no product or no variant for it. When the link exists, a
  variant is found and no call throws, it returns true, whether or not a quantity was
  pushed: the push (and the update of the cached quantity) happens exactly when the
  variant's current quantity, a missing one read as 0, differs from the target.
\<close>

theorem syncBunjangInventoryToShopify_result:
  "(findOne env = Resolves None
      \<longrightarrow> syncBunjangInventoryToShopify env pid q = (Inr False, []))
   \<and> (findOne env = Resolves (Some p) \<and> \<not> truthy (shopifyGid p)
      \<longrightarrow> syncBunjangInventoryToShopify env pid q = (Inr False, []))
   \<and> (findOne env = Resolves (Some p) \<and> truthy (shopifyGid p)
        \<and> (shopifyGraphqlRequest env = Resolves None
            \<or> shopifyGraphqlRequest env = Resolves (Some []))
      \<longrightarrow> syncBunjangInventoryToShopify env pid q = (Inr False, []))
   \<and> (findOne env = Resolves (Some p) \<and> truthy (shopifyGid p)
        \<and> shopifyGraphqlRequest env = Resolves (Some (v # vs))
        \<and> updateInventoryLevel env = Resolves () \<and> updateOne env = Resolves ()
      \<longrightarrow> syncBunjangInventoryToShopify env pid q =
            (Inr True,
             if or_zero (inventoryQuantity v) \<noteq> q
             then [UpdateInventoryLevel (inventoryItemId v) q, UpdateOne pid q] else []))"
  by (auto simp add: syncBunjangInventoryToShopify_def Let_def)

theorem syncBunjangInventoryToShopify_result_witness:
  "syncBunjangInventoryToShopify sync_no_link ''12345'' 5 = (Inr False, [])
   \<and> syncBunjangInventoryToShopify sync_no_gid ''12345'' 5 = (Inr False, [])
   \<and> syncBunjangInventoryToShopify sync_no_variant ''12345'' 5 = (Inr False, [])
   \<and> syncBunjangInventoryToShopify sync_ok ''12345'' 3 = (Inr True, [])
   \<and> syncBunjangInventoryToShopify sync_ok ''12345'' 5 =
       (Inr True, [UpdateInventoryLevel ''gid://shopify/InventoryItem/7'' 5, UpdateOne ''12345'' 5])"
  using syncBunjangInventoryToShopify_result [where env = sync_no_link and pid = "''12345''" and q = 5]
    syncBunjangInventoryToShopify_result
      [where env = sync_no_gid and p = "link1\<lparr>shopifyGid := None\<rparr>" and pid = "''12345''"
         and q = 5]
    syncBunjangInventoryToShopify_result
      [where env = sync_no_variant and p = link1 and pid = "''12345''" and q = 5]
    syncBunjangInventoryToShopify_result
      [where env = sync_ok and p = link1 and v = variant1 and vs = "[]" and pid = "''12345''"
         and q = 3]
    syncBunjangInventoryToShopify_result
      [where env = sync_ok and p = link1 and v = variant1 and vs = "[]" and pid = "''12345''"
         and q = 5]
  by (simp add: inventory_scenario_defs truthy_def or_zero_def)

theorem rejected_fetch_counterexample:
  "getBunjangProductDetails check_down = Rejects (ServiceError ''timeout'' None)
   \<and> checkAndSyncBunjangInventory check_down ''12345'' =
       (Inl (ServiceError ''timeout'' None), [GetBunjangProductDetails ''12345''])
   \<and> getBunjangProductDetails check_sync_down = Resolves (Some details0)
   \<and> checkAndSyncBunjangInventory check_sync_down ''12345'' =
       (Inl (ServiceError ''Throttled'' None), [GetBunjangProductDetails ''12345''])"
  by (simp add: checkAndSyncBunjangInventory_def syncBunjangInventoryToShopify_def
        inventory_scenario_defs truthy_def or_zero_def Let_def)

text \<open>
  C6, as amended. \<open>checkAndSyncBunjangInventory\<close> returns \<open>-1\<close>, so not 0, and calls
  nothing else when the product-detail fetch resolves with nothing; when the fetch itself
  throws, it returns nothing: the exception is thrown on to the caller, again with no
  further call. When the fetch finds the product, the synchronisation is run with the
  fetched quantity, a missing one read as 0; that quantity is returned if the
  synchronisation returns (whatever it returns), and the exception of the synchronisation
  is thrown on otherwise. So a result of 0 always comes from a fetch that found the
  product, with a quantity of 0 or none.
\<close>

theorem checkAndSyncBunjangInventory_result:
  "(getBunjangProductDetails env = Resolves None
      \<longrightarrow> checkAndSyncBunjangInventory env pid = (Inr (- 1), [GetBunjangProductDetails pid]))
   \<and> (getBunjangProductDetails env = Rejects e
      \<longrightarrow> checkAndSyncBunjangInventory env pid = (Inl e, [GetBunjangProductDetails pid]))
   \<and> (getBunjangProductDetails env = Resolves (Some d)
        \<and> syncBunjangInventoryToShopify (sync env) pid (or_zero (quantity d)) = (Inr b, evs)
      \<longrightarrow> checkAndSyncBunjangInventory env pid =
            (Inr (or_zero (quantity d)), GetBunjangProductDetails pid # evs))
   \<and> (getBunjangProductDetails env = Resolves (Some d)
        \<and> syncBunjangInventoryToShopify (sync env) pid (or_zero (quantity d)) = (Inl e, evs)
      \<longrightarrow> checkAndSyncBunjangInventory env pid = (Inl e, GetBunjangProductDetails pid # evs))
   \<and> (fst (checkAndSyncBunjangInventory env pid) = Inr 0
      \<longrightarrow> (\<exists>d. getBunjangProductDetails env = Resolves (Some d) \<and> or_zero (quantity d) = 0))"
  by (auto simp add: checkAndSyncBunjangInventory_def Let_def
        split: outcome.splits option.splits prod.splits sum.splits)

lemma sync_ok_runs:
  "syncBunjangInventoryToShopify sync_ok ''12345'' 3 = (Inr True, [])"
  "syncBunjangInventoryToShopify sync_ok ''12345'' 0 =
     (Inr True, [UpdateInventoryLevel ''gid://shopify/InventoryItem/7'' 0, UpdateOne ''12345'' 0])"
  "syncBunjangInventoryToShopify (sync check_sync_down) ''12345'' 3 =
     (Inl (ServiceError ''Throttled'' None), [])"
  by (simp_all add: syncBunjangInventoryToShopify_def inventory_scenario_defs truthy_def
        or_zero_def)

theorem checkAndSyncBunjangInventory_result_witness:
  "checkAndSyncBunjangInventory check_unknown ''12345'' =
     (Inr (- 1), [GetBunjangProductDetails ''12345''])
   \<and> checkAndSyncBunjangInventory check_down ''12345'' =
       (Inl (ServiceError ''timeout'' None), [GetBunjangProductDetails ''12345''])
   \<and> checkAndSyncBunjangInventory check_ok ''12345'' =
       (Inr 3, [GetBunjangProductDetails ''12345''])
   \<and> checkAndSyncBunjangInventory check_no_quantity ''12345'' =
       (Inr 0, [GetBunjangProductDetails ''12345'',
                UpdateInventoryLevel ''gid://shopify/InventoryItem/7'' 0, UpdateOne ''12345'' 0])
   \<and> checkAndSyncBunjangInventory check_sync_down ''12345'' =
       (Inl (ServiceError ''Throttled'' None), [GetBunjangProductDetails ''12345''])"
proof -
  have unknown: "checkAndSyncBunjangInventory check_unknown ''12345''
                   = (Inr (- 1), [GetBunjangProductDetails ''12345''])"
    using checkAndSyncBunjangInventory_result [where env = check_unknown and pid = "''12345''"]
    by (simp add: check_unknown_def)
  have down: "checkAndSyncBunjangInventory check_down ''12345''
                = (Inl (ServiceError ''timeout'' None), [GetBunjangProductDetails ''12345''])"
    using checkAndSyncBunjangInventory_result
            [where env = check_down and pid = "''12345''" and e = "ServiceError ''timeout'' None"]
    by (simp add: check_down_def)
  have ok: "checkAndSyncBunjangInventory check_ok ''12345''
              = (Inr 3, [GetBunjangProductDetails ''12345''])"
    using checkAndSyncBunjangInventory_result
            [where env = check_ok and pid = "''12345''" and d = details0 and b = True
               and evs = "[]"]
          sync_ok_runs(1)
    by (simp add: check_ok_def details0_def or_zero_def)
  have none: "checkAndSyncBunjangInventory check_no_quantity ''12345''
                = (Inr 0, [GetBunjangProductDetails ''12345'',
                           UpdateInventoryLevel ''gid://shopify/InventoryItem/7'' 0,
                           UpdateOne ''12345'' 0])"
    using checkAndSyncBunjangInventory_result
            [where env = check_no_quantity and pid = "''12345''"
               and d = "details0\<lparr>quantity := None\<rparr>" and b = True
               and evs = "[UpdateInventoryLevel ''gid://shopify/InventoryItem/7'' 0,
                           UpdateOne ''12345'' 0]"]
          sync_ok_runs(2)
    by (simp add: check_no_quantity_def details0_def or_zero_def)
  have sync_down: "checkAndSyncBunjangInventory check_sync_down ''12345''
                = (Inl (ServiceError ''Throttled'' None), [GetBunjangProductDetails ''12345''])"
    using checkAndSyncBunjangInventory_result
            [where env = check_sync_down and pid = "''12345''" and d = details0
               and e = "ServiceError ''Throttled'' None" and evs = "[]"]
          sync_ok_runs(3)
    by (simp add: check_sync_down_def details0_def or_zero_def)
  show ?thesis using unknown down ok none sync_down by simp
qed

subsection \<open>The full synchronisation\<close>

lemma sync_product_step:
  "fst (sync_product product env r) =
     r\<lparr>synced := synced r + (if is_synced (check_result (product, env)) then 1 else 0),
       failed := failed r + (if is_failed (check_result (product, env)) then 1 else 0),
       skipped := skipped r + (if is_skipped (check_result (product, env)) then 1 else 0),
       lowStock := lowStock r @ low_entries (product, env)\<rparr>"
  by (simp add: sync_product_def check_result_def low_entries_def is_synced_def is_skipped_def
        is_failed_def split: prod.splits sum.splits)

lemma sync_products_counts:
  "fst (sync_products xs r evs) =
     r\<lparr>synced := synced r + length (filter (\<lambda>x. is_synced (check_result x)) xs),
       failed := failed r + length (filter (\<lambda>x. is_failed (check_result x)) xs),
       skipped := skipped r + length (filter (\<lambda>x. is_skipped (check_result x)) xs),
       lowStock := lowStock r @ concat (map low_entries xs)\<rparr>"
proof (induction xs arbitrary: r evs)
  case Nil
  show ?case by simp
next
  case (Cons x xs)
  obtain product env where x: "x = (product, env)" by (cases x)
  have unfold: "sync_products (x # xs) r evs =
      sync_products xs (fst (sync_product product env r)) (evs @ snd (sync_product product env r))"
    by (simp add: x split_beta)
  show ?case
    unfolding unfold Cons.IH by (simp add: x sync_product_step)
qed

text \<open>
  C10. A full synchronisation whose query resolves returns its counts. It runs over the
  SYNCED links that have a Bunjang product id, at most 1000 of them. A product whose check
  returns a negative number, \<open>-1\<close> in particular, is counted as skipped and as nothing
  else, and contributes no low-stock entry, whatever its cached quantity; a product whose
  check throws is counted as failed; a product whose check returns a non-negative quantity
  is counted as synced and gets a low-stock entry, carrying the fetched quantity, exactly
  when that quantity is at most 5.
\<close>

theorem performFullInventorySync_counts:
  assumes "collection = Resolves db"
  shows "\<exists>r evs. performFullInventorySync collection envs = (Inr r, evs)
     \<and> totalProducts r = length (find_synced db) \<and> totalProducts r \<le> 1000
     \<and> (let xs = zip (find_synced db) (map envs [0..<length (find_synced db)]) in
          synced r = length (filter (\<lambda>x. is_synced (check_result x)) xs)
        \<and> skipped r = length (filter (\<lambda>x. is_skipped (check_result x)) xs)
        \<and> failed r = length (filter (\<lambda>x. is_failed (check_result x)) xs)
        \<and> lowStock r = concat (map low_entries xs)
        \<and> (\<forall>x \<in> set xs. check_result x = Inr (- 1)
              \<longrightarrow> is_skipped (check_result x) \<and> \<not> is_synced (check_result x)
                \<and> \<not> is_failed (check_result x) \<and> low_entries x = []))"
proof -
  let ?ps = "find_synced db"
  let ?xs = "zip ?ps (map envs [0..<length ?ps])"
  let ?r0 = "\<lparr>totalProducts = length ?ps, synced = 0, failed = 0, skipped = 0, lowStock = []\<rparr>"
  define r where "r = fst (sync_products ?xs ?r0 [])"
  define evs where "evs = snd (sync_products ?xs ?r0 [])"
  have loop: "sync_products ?xs ?r0 [] = (r, evs)" by (simp add: r_def evs_def)
  have len: "length ?ps \<le> 1000" by (simp add: find_synced_def)
  have "performFullInventorySync collection envs = (Inr r, evs)"
    using assms loop by (simp add: performFullInventorySync_def Let_def)
  moreover have "totalProducts r = length ?ps" by (simp add: r_def sync_products_counts)
  moreover have "synced r = length (filter (\<lambda>x. is_synced (check_result x)) ?xs)"
    by (simp add: r_def sync_products_counts)
  moreover have "skipped r = length (filter (\<lambda>x. is_skipped (check_result x)) ?xs)"
    by (simp add: r_def sync_products_counts)
  moreover have "failed r = length (filter (\<lambda>x. is_failed (check_result x)) ?xs)"
    by (simp add: r_def sync_products_counts)
  moreover have "lowStock r = concat (map low_entries ?xs)"
    by (simp add: r_def sync_products_counts)
  moreover have "\<forall>x \<in> set ?xs. check_result x = Inr (- 1)
              \<longrightarrow> is_skipped (check_result x) \<and> \<not> is_synced (check_result x)
                \<and> \<not> is_failed (check_result x) \<and> low_entries x = []"
    by (simp add: is_skipped_def is_synced_def is_failed_def low_entries_def)
  ultimately show ?thesis using len by (simp add: Let_def)
qed

lemma scenario_C_inputs:
  "zip (find_synced collection_C) (map envs_C [0..<length (find_synced collection_C)])
     = [(link1, check_ok), (link2, check_unknown), (link3, check_down)]"
  by (simp add: find_synced_def collection_C_def link1_def link2_def link3_def link4_def
        envs_C_def upt_rec)

lemma scenario_C_checks:
  "check_result (link1, check_ok) = Inr 3"
  "check_result (link2, check_unknown) = Inr (- 1)"
  "check_result (link3, check_down) = Inl (ServiceError ''timeout'' None)"
  by (simp_all add: check_result_def checkAndSyncBunjangInventory_def
        syncBunjangInventoryToShopify_def inventory_scenario_defs pid_of_def truthy_def
        or_zero_def)

lemma scenario_C_low:
  "low_entries (link1, check_ok)
     = [\<lparr>ls_bunjangPid = Some ''12345'', ls_productName = ''Album'', ls_currentStock = 3\<rparr>]"
  "low_entries (link2, check_unknown) = []"
  "low_entries (link3, check_down) = []"
proof -
  have fields: "bunjangPid link1 = Some ''12345''" "bunjangProductName link1 = ''Album''"
    by (simp_all add: link1_def)
  show "low_entries (link1, check_ok)
     = [\<lparr>ls_bunjangPid = Some ''12345'', ls_productName = ''Album'', ls_currentStock = 3\<rparr>]"
    by (simp add: low_entries_def scenario_C_checks fields)
  show "low_entries (link2, check_unknown) = []"
    by (simp add: low_entries_def scenario_C_checks)
  show "low_entries (link3, check_down) = []"
    by (simp add: low_entries_def scenario_C_checks)
qed

theorem performFullInventorySync_counts_witness:
  "bunjangQuantity link2 = Some 2
   \<and> (\<exists>r evs. performFullInventorySync (Resolves collection_C) envs_C = (Inr r, evs)
        \<and> totalProducts r = 3 \<and> synced r = 1 \<and> skipped r = 1 \<and> failed r = 1
        \<and> lowStock r = [\<lparr>ls_bunjangPid = Some ''12345'', ls_productName = ''Album'',
                           ls_currentStock = 3\<rparr>])"
proof -
  let ?xs = "zip (find_synced collection_C) (map envs_C [0..<length (find_synced collection_C)])"
  have three: "length (find_synced collection_C) = 3"
    by (simp add: find_synced_def collection_C_def link1_def link2_def link3_def link4_def)
  have cached: "bunjangQuantity link2 = Some 2"
    by (simp add: link2_def link1_def)
  obtain r evs where loop: "performFullInventorySync (Resolves collection_C) envs_C = (Inr r, evs)"
    and total: "totalProducts r = length (find_synced collection_C)"
    and counts: "synced r = length (filter (\<lambda>x. is_synced (check_result x)) ?xs)"
      "skipped r = length (filter (\<lambda>x. is_skipped (check_result x)) ?xs)"
      "failed r = length (filter (\<lambda>x. is_failed (check_result x)) ?xs)"
    and low: "lowStock r = concat (map low_entries ?xs)"
    using performFullInventorySync_counts [of "Resolves collection_C" collection_C envs_C]
    by (auto simp add: Let_def)
  have "synced r = 1" "skipped r = 1" "failed r = 1"
    using counts unfolding scenario_C_inputs
    by (simp_all add: scenario_C_checks is_synced_def is_skipped_def is_failed_def)
  moreover have "lowStock r = [\<lparr>ls_bunjangPid = Some ''12345'', ls_productName = ''Album'',
                                 ls_currentStock = 3\<rparr>]"
    using low unfolding scenario_C_inputs
    by (simp add: scenario_C_low)
  ultimately show ?thesis using loop total three cached by simp
qed

section \<open>Properties of the webhook routes\<close>

text \<open>
  C4. The order-creation handler pushes nothing when the check returns \<open>-1\<close>, but the
  handler of a cancelled order adds the ordered quantity to whatever the check returned:
  for the cancelled order with an ordered quantity of 0 it pushes \<open>-1\<close> to Shopify and
  writes it to the cached quantity, and for an ordered quantity of 1 it pushes 0, a
  quantity computed from the sentinel.
\<close>

theorem cancellation_pushes_the_sentinel:
  "orders_updated hooks_unknown (Some cancelled0) =
     (\<lparr>status = 200, reply = Json ''status'' ''success''\<rparr>,
      [GetBunjangProductDetails ''12345'',
       UpdateInventoryLevel ''gid://shopify/InventoryItem/7'' (- 1), UpdateOne ''12345'' (- 1)])
   \<and> pushed (snd (orders_updated hooks_unknown (Some cancelled1))) = [0]
   \<and> pushed (snd (orders_create hooks_unknown (Some cancelled0))) = []"
  by (simp add: orders_updated_def orders_create_def restore_item_def create_item_def
        items_of_def linked_pid_def checkAndSyncBunjangInventory_def
        syncBunjangInventoryToShopify_def inventory_scenario_defs truthy_def or_zero_def
        Let_def)

text \<open>
  C3. \<open>verifyWebhook\<close> answers 401 when the signature header is absent or empty and
  when the raw body is missing; with both present it answers 500, a server-configuration
  error, when the secret is not configured; with all three present it answers 401 when the
  decoded signature of the header and the decoded signature computed over the raw body
  differ in length or in content. The handler is reached only by a request that has the
  header, the raw body and a configured secret and whose decoded signatures are equal; the
  order-creation route then answers 200 with status \<open>success\<close> for a body that is an
  object, and it answers 200 in no other case.
\<close>

theorem verifyWebhook_checks:
  "(\<not> truthy (hmac_header req)
      \<longrightarrow> verifyWebhook c webhookSecret req = Rejected 401 ''Unauthorized - Missing HMAC'')
   \<and> (raw_missing (rawBody req) \<longrightarrow> (\<exists>msg. verifyWebhook c webhookSecret req = Rejected 401 msg))
   \<and> (truthy (hmac_header req) \<and> \<not> raw_missing (rawBody req) \<and> \<not> truthy webhookSecret
      \<longrightarrow> verifyWebhook c webhookSecret req = Rejected 500 ''Server configuration error'')
   \<and> (hmac_header req = Some hmac \<and> hmac \<noteq> [] \<and> \<not> raw_missing (rawBody req)
        \<and> webhookSecret = Some secret \<and> secret \<noteq> []
        \<and> (length (base64_decode c hmac)
              \<noteq> length (base64_decode c (hmac_sha256_base64 c secret (rawBodyBuffer (rawBody req))))
            \<or> base64_decode c hmac
              \<noteq> base64_decode c (hmac_sha256_base64 c secret (rawBodyBuffer (rawBody req))))
      \<longrightarrow> verifyWebhook c webhookSecret req = Rejected 401 ''Unauthorized - Invalid HMAC'')
   \<and> (verifyWebhook c webhookSecret req = Next parsed
      \<longrightarrow> (\<exists>h k. hmac_header req = Some h \<and> h \<noteq> [] \<and> \<not> raw_missing (rawBody req)
            \<and> webhookSecret = Some k \<and> k \<noteq> []
            \<and> base64_decode c h
              = base64_decode c (hmac_sha256_base64 c k (rawBodyBuffer (rawBody req)))))
   \<and> (verifyWebhook c webhookSecret req = Next (Some order)
      \<longrightarrow> fst (post_orders_create envs c webhookSecret req)
            = \<lparr>status = 200, reply = Json ''status'' ''success''\<rparr>)
   \<and> (status (fst (post_orders_create envs c webhookSecret req)) = 200
      \<longrightarrow> (\<exists>order. verifyWebhook c webhookSecret req = Next (Some order)))"
  by (auto simp add: verifyWebhook_def truthy_def timingSafeEqual_def Let_def
        post_orders_create_def route_def orders_create_def
      split: option.splits if_splits verdict.splits)

lemma request_good_verified:
  "verifyWebhook crypto0 (Some ''shpss_1'') request_good = Next (Some order987)"
  by (simp add: verifyWebhook_def crypto0_def request_good_def timingSafeEqual_def)

theorem verifyWebhook_checks_witness:
  "verifyWebhook crypto0 (Some ''shpss_1'') request_unsigned
     = Rejected 401 ''Unauthorized - Missing HMAC''
   \<and> (\<exists>msg. verifyWebhook crypto0 (Some ''shpss_1'') request_parsed_early = Rejected 401 msg)
   \<and> verifyWebhook crypto0 None request_good = Rejected 500 ''Server configuration error''
   \<and> verifyWebhook crypto0 (Some ''shpss_1'') request_forged
     = Rejected 401 ''Unauthorized - Invalid HMAC''
   \<and> (\<exists>h. hmac_header request_good = Some h \<and> h \<noteq> [])
   \<and> fst (post_orders_create hooks_ok crypto0 (Some ''shpss_1'') request_good)
     = \<lparr>status = 200, reply = Json ''status'' ''success''\<rparr>"
proof -
  have unsigned: "verifyWebhook crypto0 (Some ''shpss_1'') request_unsigned
                    = Rejected 401 ''Unauthorized - Missing HMAC''"
    using verifyWebhook_checks [where req = request_unsigned and c = crypto0
            and webhookSecret = "Some ''shpss_1''"]
    by (simp add: request_unsigned_def request_good_def truthy_def)
  have early: "\<exists>msg. verifyWebhook crypto0 (Some ''shpss_1'') request_parsed_early = Rejected 401 msg"
    using verifyWebhook_checks [where req = request_parsed_early and c = crypto0
            and webhookSecret = "Some ''shpss_1''"]
    by (simp add: request_parsed_early_def request_good_def)
  have unconfigured: "verifyWebhook crypto0 None request_good
                        = Rejected 500 ''Server configuration error''"
    using verifyWebhook_checks [where req = request_good and c = crypto0
            and webhookSecret = None]
    by (simp add: request_good_def truthy_def)
  have forged: "verifyWebhook crypto0 (Some ''shpss_1'') request_forged
                  = Rejected 401 ''Unauthorized - Invalid HMAC''"
    using verifyWebhook_checks [where req = request_forged and c = crypto0
            and webhookSecret = "Some ''shpss_1''" and hmac = "''Zm9yZ2Vk''"
            and secret = "''shpss_1''"]
    by (simp add: request_forged_def request_good_def crypto0_def)
  have header: "\<exists>h. hmac_header request_good = Some h \<and> h \<noteq> []"
    using verifyWebhook_checks [where req = request_good and c = crypto0
            and webhookSecret = "Some ''shpss_1''" and parsed = "Some order987"]
          request_good_verified
    by blast
  have accepted: "fst (post_orders_create hooks_ok crypto0 (Some ''shpss_1'') request_good)
                    = \<lparr>status = 200, reply = Json ''status'' ''success''\<rparr>"
    using verifyWebhook_checks [where req = request_good and c = crypto0
            and webhookSecret = "Some ''shpss_1''" and order = order987 and envs = hooks_ok]
          request_good_verified
    by simp
  show ?thesis using unsigned early unconfigured forged header accepted by simp
qed

section \<open>Properties of the status reconciliation\<close>

subsection \<open>Observations and appended events\<close>

lemma attempted_append: "attempted (xs @ ys) = attempted xs @ attempted ys"
  by (induction xs rule: attempted.induct) simp_all

lemma logged_failures_append:
  "logged_failures (xs @ ys) = logged_failures xs @ logged_failures ys"
  by (induction xs rule: logged_failures.induct) simp_all

text \<open>Writing to the Shopify order starts no order, logs no failure and fetches no page.\<close>

lemma write_order_silent:
  "attempted (snd (write_order answer gid tags mfs)) = []"
  "logged_failures (snd (write_order answer gid tags mfs)) = []"
  "filter fetch_failed (snd (write_order answer gid tags mfs)) = []"
  by (cases answer; simp add: write_order_def)+

lemma status_branch_silent:
  "attempted (snd (status_branch env now gid i k orderItem)) = []"
  "logged_failures (snd (status_branch env now gid i k orderItem)) = []"
  "filter fetch_failed (snd (status_branch env now gid i k orderItem)) = []"
  by (simp_all add: status_branch_def Let_def write_order_silent)

lemma update_items_silent:
  "attempted (snd (update_items env now gid i k its)) = []
   \<and> logged_failures (snd (update_items env now gid i k its)) = []
   \<and> filter fetch_failed (snd (update_items env now gid i k its)) = []"
proof (induction its arbitrary: k)
  case Nil
  show ?case by simp
next
  case (Cons orderItem rest)
  let ?stamp = "write_order (stampWrite env k) gid []
                  [bunjang_field ''last_status_sync'' now ''date_time'',
                   bunjang_field ''last_bunjang_status'' (item_status orderItem)
                     ''single_line_text_field'']"
  show ?case
    using Cons.IH [of "Suc k"]
      status_branch_silent [of env now gid i k orderItem]
      write_order_silent [of "stampWrite env k" gid "[]"
        "[bunjang_field ''last_status_sync'' now ''date_time'',
          bunjang_field ''last_bunjang_status'' (item_status orderItem)
            ''single_line_text_field'']"]
    by (cases "status_branch env now gid i k orderItem"; cases ?stamp;
        cases "update_items env now gid i (Suc k) rest")
       (auto simp add: attempted_append logged_failures_append split: option.splits)
qed

lemma update_items_quiet:
  "attempted (snd (update_items env now gid i k its)) = []"
  "logged_failures (snd (update_items env now gid i k its)) = []"
  "filter fetch_failed (snd (update_items env now gid i k its)) = []"
  by (simp_all add: update_items_silent)

lemma update_order_events:
  "attempted (snd (updateShopifyOrderFromBunjangStatus env now bunjangOrder))
     = [bunjang_order_id bunjangOrder]"
  "logged_failures (snd (updateShopifyOrderFromBunjangStatus env now bunjangOrder)) = []"
  "filter fetch_failed (snd (updateShopifyOrderFromBunjangStatus env now bunjangOrder)) = []"
  by (simp_all add: updateShopifyOrderFromBunjangStatus_def case_prod_beta update_items_quiet
        split: outcome.splits option.splits)

subsection \<open>The orders of one page\<close>

lemma sync_orders_effect:
  "attempted (trace (sync_orders now orders st))
     = attempted (trace st) @ map (\<lambda>x. bunjang_order_id (fst x)) orders
   \<and> logged_failures (trace (sync_orders now orders st))
     = logged_failures (trace st)
       @ map (\<lambda>x. bunjang_order_id (fst x)) (filter (order_fails now) orders)
   \<and> syncedCount (sync_orders now orders st)
     = syncedCount st + length (filter (\<lambda>x. \<not> order_fails now x) orders)
   \<and> errorCount (sync_orders now orders st)
     = errorCount st + length (filter (order_fails now) orders)
   \<and> filter fetch_failed (trace (sync_orders now orders st)) = filter fetch_failed (trace st)
   \<and> page (sync_orders now orders st) = page st
   \<and> (\<exists>rest. trace (sync_orders now orders st) = trace st @ rest)"
proof (induction orders arbitrary: st)
  case Nil
  show ?case by simp
next
  case (Cons x orders)
  obtain bunjangOrder env where x: "x = (bunjangOrder, env)" by (cases x)
  obtain r evs where step: "updateShopifyOrderFromBunjangStatus env now bunjangOrder = (r, evs)"
    by (cases "updateShopifyOrderFromBunjangStatus env now bunjangOrder")
  have evs: "attempted evs = [bunjang_order_id bunjangOrder]" "logged_failures evs = []"
      "filter fetch_failed evs = []"
    using update_order_events [of env now bunjangOrder] step by simp_all
  show ?case
  proof (cases r)
    case None
    then have fails: "\<not> order_fails now x" using step x by (simp add: order_fails_def)
    show ?thesis
      using Cons.IH [of "st\<lparr>syncedCount := syncedCount st + 1, trace := trace st @ evs\<rparr>"]
        step None fails evs
      by (auto simp add: x attempted_append logged_failures_append)
  next
    case (Some e)
    then have fails: "order_fails now x" using step x by (simp add: order_fails_def)
    show ?thesis
      using Cons.IH [of "st\<lparr>errorCount := errorCount st + 1,
                            trace := trace st @ evs @ [SyncFailed (bunjang_order_id bunjangOrder)]\<rparr>"]
        step Some fails evs
      by (auto simp add: x attempted_append logged_failures_append)
  qed
qed

lemma sync_orders_tallied:
  assumes "tallied (syncedCount st) (errorCount st) (trace st)"
  shows "tallied (syncedCount (sync_orders now orders st)) (errorCount (sync_orders now orders st))
           (trace (sync_orders now orders st))"
proof -
  have "length (filter (\<lambda>x. \<not> order_fails now x) orders) + length (filter (order_fails now) orders)
          = length orders"
    using sum_length_filter_compl [of "order_fails now" orders] by simp
  then show ?thesis
    using assms sync_orders_effect [of now orders st] by (simp add: tallied_def)
qed

subsection \<open>One round, and the whole loop\<close>

lemma page_step_cases:
  assumes "tallied (syncedCount st) (errorCount st) (trace st)"
  shows "case page_step getBunjangOrders now st of
           Inr st' \<Rightarrow>
             tallied (syncedCount st') (errorCount st') (trace st') \<and> page st' = Suc (page st)
             \<and> (\<exists>r. getBunjangOrders (page st) = Resolves r \<and> hasMore (page st) r)
             \<and> (\<exists>rest. trace st' = trace st @ GetBunjangOrders (page st) True # rest)
         | Inl (Inr counts, evs) \<Rightarrow>
             sync_success counts \<and> tallied (syncedOrders counts) (errors counts) evs
             \<and> (\<exists>rest. evs = trace st @ GetBunjangOrders (page st) True # rest)
         | Inl (Inl e, evs) \<Rightarrow>
             getBunjangOrders (page st) = Rejects e
             \<and> evs = trace st @ [GetBunjangOrders (page st) False]"
proof (cases "getBunjangOrders (page st)")
  case (Rejects e)
  then show ?thesis by (simp add: page_step_def)
next
  case (Resolves ordersResponse)
  show ?thesis
  proof (cases "orders_of ordersResponse")
    case None
    then show ?thesis
      using Resolves assms
      by (simp add: page_step_def counts_of_def tallied_def attempted_append
            logged_failures_append)
  next
    case (Some orders)
    let ?st1 = "st\<lparr>trace := trace st @ [GetBunjangOrders (page st) True]\<rparr>"
    have "tallied (syncedCount ?st1) (errorCount ?st1) (trace ?st1)"
      using assms by (simp add: tallied_def attempted_append logged_failures_append)
    then have t: "tallied (syncedCount (sync_orders now orders ?st1))
                    (errorCount (sync_orders now orders ?st1)) (trace (sync_orders now orders ?st1))"
      by (rule sync_orders_tallied)
    obtain rest where rest: "trace (sync_orders now orders ?st1) = trace ?st1 @ rest"
      using sync_orders_effect [of now orders ?st1] by blast
    have p: "page (sync_orders now orders ?st1) = page st"
      using sync_orders_effect [of now orders ?st1] by simp
    show ?thesis
      using Resolves Some t rest p
      by (simp add: page_step_def Let_def counts_of_def)
  qed
qed

lemma poll_returns:
  assumes bounded: "\<forall>p\<ge>N. \<forall>r. getBunjangOrders p = Resolves r \<longrightarrow> \<not> hasMore p r"
    and "tallied (syncedCount st) (errorCount st) (trace st)"
  shows "\<exists>out evs. poll getBunjangOrders now st = Some (out, evs)
           \<and> (case out of
                 Inr counts \<Rightarrow> sync_success counts \<and> tallied (syncedOrders counts) (errors counts) evs
               | Inl e \<Rightarrow> \<exists>p before. evs = before @ [GetBunjangOrders p False]
                            \<and> getBunjangOrders p = Rejects e \<and> filter fetch_failed before = [])"
  using assms(2)
proof (induction "N - page st" arbitrary: st rule: less_induct)
  case less
  note step = page_step_cases [OF less.prems, of getBunjangOrders now]
  show ?case
  proof (cases "page_step getBunjangOrders now st")
    case (Inl final)
    obtain out evs where final: "final = (out, evs)" by (cases final)
    have "poll getBunjangOrders now st = Some (out, evs)"
      using Inl final by (subst poll.simps) simp
    moreover have "case out of
                 Inr counts \<Rightarrow> sync_success counts \<and> tallied (syncedOrders counts) (errors counts) evs
               | Inl e \<Rightarrow> \<exists>p before. evs = before @ [GetBunjangOrders p False]
                            \<and> getBunjangOrders p = Rejects e \<and> filter fetch_failed before = []"
    proof (cases out)
      case (Inl e)
      then show ?thesis
        using step \<open>page_step getBunjangOrders now st = Inl final\<close> final less.prems
        by (auto simp add: tallied_def)
    next
      case (Inr counts)
      then show ?thesis
        using step \<open>page_step getBunjangOrders now st = Inl final\<close> final by simp
    qed
    ultimately show ?thesis by blast
  next
    case (Inr st')
    have st': "tallied (syncedCount st') (errorCount st') (trace st')" "page st' = Suc (page st)"
      using step Inr by simp_all
    obtain r where "getBunjangOrders (page st) = Resolves r" "hasMore (page st) r"
      using step Inr by auto
    then have "page st < N" using bounded by (meson not_le)
    then have "N - page st' < N - page st" using st'(2) by simp
    then have "\<exists>out evs. poll getBunjangOrders now st' = Some (out, evs)
           \<and> (case out of
                 Inr counts \<Rightarrow> sync_success counts \<and> tallied (syncedOrders counts) (errors counts) evs
               | Inl e \<Rightarrow> \<exists>p before. evs = before @ [GetBunjangOrders p False]
                            \<and> getBunjangOrders p = Rejects e \<and> filter fetch_failed before = [])"
      using st'(1) by (rule less.hyps)
    moreover have "poll getBunjangOrders now st = poll getBunjangOrders now st'"
      using Inr by (subst poll.simps) simp
    ultimately show ?thesis by simp
  qed
qed

text \<open>Whatever the loop returns starts with what was there and the fetch of its page.\<close>

lemma poll_starts_with_fetch:
  assumes "poll getBunjangOrders now st = Some y"
  shows "tallied (syncedCount st) (errorCount st) (trace st) \<longrightarrow>
           (\<exists>ok rest. snd y = trace st @ GetBunjangOrders (page st) ok # rest)"
proof (rule poll.raw_induct
         [where P = "\<lambda>g (now :: string) st y.
                       tallied (syncedCount st) (errorCount st) (trace st) \<longrightarrow>
                       (\<exists>ok rest. snd y = trace st @ GetBunjangOrders (page st) ok # rest)"])
  show "poll getBunjangOrders now st = Some y" by (rule assms)
next
  fix poll' g and now :: string and st y
  assume IH: "\<And>g now st y. poll' g now st = Some y \<Longrightarrow>
                tallied (syncedCount st) (errorCount st) (trace st) \<longrightarrow>
                (\<exists>ok rest. snd y = trace st @ GetBunjangOrders (page st) ok # rest)"
    and body: "(case page_step g now st of
                  Inl final \<Rightarrow> Some final
                | Inr st' \<Rightarrow> poll' g now st') = Some y"
  show "tallied (syncedCount st) (errorCount st) (trace st) \<longrightarrow>
          (\<exists>ok rest. snd y = trace st @ GetBunjangOrders (page st) ok # rest)"
  proof
    assume t: "tallied (syncedCount st) (errorCount st) (trace st)"
    note step = page_step_cases [OF t, of g now]
    show "\<exists>ok rest. snd y = trace st @ GetBunjangOrders (page st) ok # rest"
    proof (cases "page_step g now st")
      case (Inl final)
      then have y: "y = final" using body by simp
      obtain out evs where final: "final = (out, evs)" by (cases final)
      show ?thesis
        using step Inl final y by (cases out) auto
    next
      case (Inr st')
      then have "poll' g now st' = Some y" using body by simp
      moreover have "tallied (syncedCount st') (errorCount st') (trace st')"
        using step Inr by simp
      ultimately obtain ok rest where "snd y = trace st' @ GetBunjangOrders (page st') ok # rest"
        using IH by blast
      moreover obtain more where "trace st' = trace st @ GetBunjangOrders (page st) True # more"
        using step Inr by auto
      ultimately show ?thesis by auto
    qed
  qed
qed

subsection \<open>The scenarios, evaluated\<close>

lemmas status_defs =
  page_step_def orders_of_def hasMore_def counts_of_def updateShopifyOrderFromBunjangStatus_def
  status_branch_def write_order_def bunjang_field_def Let_def

lemmas status_scenario_defs =
  two_pages_def broken_pages_def status_found_def status_unreachable_def status_unknown_def
  bunjang_order_555_def bunjang_order_556_def bunjang_order_557_def events_page0_def
  events_two_pages_def events_broken_def now0_def

lemma two_pages_run:
  "poll two_pages now0 \<lparr>page = 0, syncedCount = 0, errorCount = 0, trace = []\<rparr>
     = Some (Inr \<lparr>sync_success = True, syncedOrders = 2, errors = 1\<rparr>, events_two_pages)"
  by (simp add: poll.simps status_defs status_scenario_defs js_String_examples)

lemma broken_pages_run:
  "poll broken_pages now0 \<lparr>page = 0, syncedCount = 0, errorCount = 0, trace = []\<rparr>
     = Some (Inl (ServiceError ''HTTP 502'' None), events_broken)"
  by (simp add: poll.simps status_defs status_scenario_defs js_String_examples)

lemma pages_end:
  "\<forall>p\<ge>1. \<forall>r. two_pages p = Resolves r \<longrightarrow> \<not> hasMore p r"
  "\<forall>p\<ge>1. \<forall>r. broken_pages p = Resolves r \<longrightarrow> \<not> hasMore p r"
  by (auto simp add: two_pages_def broken_pages_def hasMore_def)

subsection \<open>The date range\<close>

lemma diffDays_exact:
  "(real_of_int x / (1000 * 60 * 60 * 24) > 15) = (x > 15 * (24 * 60 * 60 * 1000))"
  by (simp add: pos_less_divide_eq)

lemma accepted_range:
  assumes "startDate = Some t0" and "endDate = Some t1"
    and "t1 - t0 \<le> 15 * (24 * 60 * 60 * 1000)"
  shows "syncBunjangOrderStatuses getBunjangOrders now startDate endDate
           = poll getBunjangOrders now \<lparr>page = 0, syncedCount = 0, errorCount = 0, trace = []\<rparr>"
  using assms diffDays_exact [of "t1 - t0"]
  by (simp add: syncBunjangOrderStatuses_def Let_def del: of_int_diff)

text \<open>
  C7. With valid dates whose time values differ by more than 15 days (by a millisecond
  more, too), \<open>syncBunjangOrderStatuses\<close> fails with the validation error and has made no
  call at all. With a difference of exactly 15 days or less the range is accepted: the
  run is the page loop, and whatever it returns starts with the fetch of page 0.
\<close>

theorem date_range_is_validated_first:
  "(startDate = Some t0 \<and> endDate = Some t1 \<and> t1 - t0 > 15 * (24 * 60 * 60 * 1000)
      \<longrightarrow> syncBunjangOrderStatuses getBunjangOrders now startDate endDate
            = Some (Inl (ValidationError ''dateRange''), []))
   \<and> (startDate = Some t0 \<and> endDate = Some t1 \<and> t1 - t0 \<le> 15 * (24 * 60 * 60 * 1000)
      \<longrightarrow> syncBunjangOrderStatuses getBunjangOrders now startDate endDate
            = poll getBunjangOrders now \<lparr>page = 0, syncedCount = 0, errorCount = 0, trace = []\<rparr>
        \<and> (\<forall>out evs. syncBunjangOrderStatuses getBunjangOrders now startDate endDate
                         = Some (out, evs)
              \<longrightarrow> (\<exists>ok rest. evs = GetBunjangOrders 0 ok # rest)))"
proof -
  have rejected: "syncBunjangOrderStatuses getBunjangOrders now startDate endDate
            = Some (Inl (ValidationError ''dateRange''), [])"
    if "startDate = Some t0" and "endDate = Some t1"
      and "t1 - t0 > 15 * (24 * 60 * 60 * 1000)"
    using that diffDays_exact [of "t1 - t0"]
    by (simp add: syncBunjangOrderStatuses_def Let_def del: of_int_diff)
  have first: "\<exists>ok rest. evs = GetBunjangOrders 0 ok # rest"
    if "startDate = Some t0" and "endDate = Some t1"
      and "t1 - t0 \<le> 15 * (24 * 60 * 60 * 1000)"
      and "syncBunjangOrderStatuses getBunjangOrders now startDate endDate = Some (out, evs)"
    for out evs
  proof -
    have "poll getBunjangOrders now \<lparr>page = 0, syncedCount = 0, errorCount = 0, trace = []\<rparr>
            = Some (out, evs)"
      using that accepted_range [OF that(1,2,3)] by simp
    then show ?thesis
      using poll_starts_with_fetch
              [of getBunjangOrders now "\<lparr>page = 0, syncedCount = 0, errorCount = 0, trace = []\<rparr>"
                  "(out, evs)"]
      by (simp add: tallied_def)
  qed
  show ?thesis
    using rejected accepted_range first by blast
qed

theorem date_range_is_validated_first_witness:
  "syncBunjangOrderStatuses two_pages now0 (Some 1748736000000) (Some 1750032000001)
     = Some (Inl (ValidationError ''dateRange''), [])
   \<and> syncBunjangOrderStatuses two_pages now0 (Some 1748736000000) (Some 1750032000000)
     = Some (Inr \<lparr>sync_success = True, syncedOrders = 2, errors = 1\<rparr>, events_two_pages)
   \<and> (\<exists>ok rest. events_two_pages = GetBunjangOrders 0 ok # rest)"
proof -
  have too_long: "syncBunjangOrderStatuses two_pages now0 (Some 1748736000000) (Some 1750032000001)
     = Some (Inl (ValidationError ''dateRange''), [])"
    using date_range_is_validated_first
            [where startDate = "Some 1748736000000" and endDate = "Some 1750032000001"
               and ?t0.0 = 1748736000000 and ?t1.0 = 1750032000001
               and getBunjangOrders = two_pages and now = now0]
    by simp
  have exact: "syncBunjangOrderStatuses two_pages now0 (Some 1748736000000) (Some 1750032000000)
     = Some (Inr \<lparr>sync_success = True, syncedOrders = 2, errors = 1\<rparr>, events_two_pages)
     \<and> (\<exists>ok rest. events_two_pages = GetBunjangOrders 0 ok # rest)"
    using date_range_is_validated_first
            [where startDate = "Some 1748736000000" and endDate = "Some 1750032000000"
               and ?t0.0 = 1748736000000 and ?t1.0 = 1750032000000
               and getBunjangOrders = two_pages and now = now0]
          two_pages_run
    by simp
  show ?thesis using too_long exact by simp
qed

text \<open>
  C8. For an accepted date range and a Bunjang that stops announcing further pages from
  some page on, the run ends. It returns counts exactly when no page fetch failed: then
  every order whose synchronisation was started is counted once, as synced or as an error,
  and the errors are the failures that were logged. Otherwise it throws the exception of
  the page fetch that failed, which is the last thing it did. Within a page every order is
  started, in order, whether or not the ones before it failed; the failing ones are logged
  and add to the error count, the others add to the synced count.
\<close>

theorem page_failure_aborts_order_failure_counts:
  assumes "startDate = Some t0" and "endDate = Some t1"
    and "t1 - t0 \<le> 15 * (24 * 60 * 60 * 1000)"
    and bounded: "\<forall>p\<ge>N. \<forall>r. getBunjangOrders p = Resolves r \<longrightarrow> \<not> hasMore p r"
  shows "(\<exists>out evs. syncBunjangOrderStatuses getBunjangOrders now startDate endDate = Some (out, evs)
          \<and> (case out of
                Inr counts \<Rightarrow>
                  sync_success counts
                  \<and> syncedOrders counts + errors counts = length (attempted evs)
                  \<and> errors counts = length (logged_failures evs)
              | Inl e \<Rightarrow>
                  \<exists>p before. evs = before @ [GetBunjangOrders p False]
                    \<and> getBunjangOrders p = Rejects e \<and> filter fetch_failed before = [])
          \<and> ((\<exists>counts. out = Inr counts) \<longleftrightarrow> filter fetch_failed evs = []))
       \<and> attempted (trace (sync_orders now orders st))
           = attempted (trace st) @ map (\<lambda>x. bunjang_order_id (fst x)) orders
       \<and> logged_failures (trace (sync_orders now orders st))
           = logged_failures (trace st)
             @ map (\<lambda>x. bunjang_order_id (fst x)) (filter (order_fails now) orders)
       \<and> errorCount (sync_orders now orders st)
           = errorCount st + length (filter (order_fails now) orders)
       \<and> syncedCount (sync_orders now orders st)
           = syncedCount st + length (filter (\<lambda>x. \<not> order_fails now x) orders)"
proof -
  let ?st0 = "\<lparr>page = 0, syncedCount = 0, errorCount = 0, trace = []\<rparr>"
  have "tallied (syncedCount ?st0) (errorCount ?st0) (trace ?st0)"
    by (simp add: tallied_def)
  then obtain out evs where loop: "poll getBunjangOrders now ?st0 = Some (out, evs)"
    and post: "case out of
                 Inr counts \<Rightarrow> sync_success counts \<and> tallied (syncedOrders counts) (errors counts) evs
               | Inl e \<Rightarrow> \<exists>p before. evs = before @ [GetBunjangOrders p False]
                            \<and> getBunjangOrders p = Rejects e \<and> filter fetch_failed before = []"
    using poll_returns [OF bounded, of ?st0 now] by blast
  have result: "syncBunjangOrderStatuses getBunjangOrders now startDate endDate = Some (out, evs)"
    using accepted_range [OF assms(1,2,3)] loop by simp
  have outcome: "(case out of
                Inr counts \<Rightarrow>
                  sync_success counts
                  \<and> syncedOrders counts + errors counts = length (attempted evs)
                  \<and> errors counts = length (logged_failures evs)
              | Inl e \<Rightarrow>
                  \<exists>p before. evs = before @ [GetBunjangOrders p False]
                    \<and> getBunjangOrders p = Rejects e \<and> filter fetch_failed before = [])
          \<and> ((\<exists>counts. out = Inr counts) \<longleftrightarrow> filter fetch_failed evs = [])"
    using post by (cases out) (auto simp add: tallied_def)
  show ?thesis
    using result outcome sync_orders_effect [of now orders st] by blast
qed

theorem page_failure_aborts_order_failure_counts_witness:
  "syncBunjangOrderStatuses two_pages now0 (Some 1748736000000) (Some 1750032000000)
     = Some (Inr \<lparr>sync_success = True, syncedOrders = 2, errors = 1\<rparr>, events_two_pages)
   \<and> attempted events_two_pages = [555, 556, 557]
   \<and> logged_failures events_two_pages = [556]
   \<and> syncBunjangOrderStatuses broken_pages now0 (Some 1748736000000) (Some 1750032000000)
     = Some (Inl (ServiceError ''HTTP 502'' None), events_broken)
   \<and> filter fetch_failed events_broken = [GetBunjangOrders 1 False]"
proof -
  have range: "(1750032000000 :: int) - 1748736000000 \<le> 15 * (24 * 60 * 60 * 1000)"
    by simp
  have complete: "syncBunjangOrderStatuses two_pages now0 (Some 1748736000000) (Some 1750032000000)
     = Some (Inr \<lparr>sync_success = True, syncedOrders = 2, errors = 1\<rparr>, events_two_pages)"
    using page_failure_aborts_order_failure_counts [OF refl refl range pages_end(1), of now0]
      accepted_range [OF refl refl range, of two_pages now0] two_pages_run
    by simp
  have aborted: "syncBunjangOrderStatuses broken_pages now0 (Some 1748736000000) (Some 1750032000000)
     = Some (Inl (ServiceError ''HTTP 502'' None), events_broken)"
    using page_failure_aborts_order_failure_counts [OF refl refl range pages_end(2), of now0]
      accepted_range [OF refl refl range, of broken_pages now0] broken_pages_run
    by simp
  have observed: "attempted events_two_pages = [555, 556, 557]"
      "logged_failures events_two_pages = [556]"
      "filter fetch_failed events_broken = [GetBunjangOrders 1 False]"
    by (simp_all add: events_two_pages_def events_broken_def events_page0_def)
  show ?thesis using complete aborted observed by simp
qed

end
